theory Spec2Isabelle
  imports Complex_Main "HOL-Library.AList"
begin

section \<open>Time, files and strings\<close>

text \<open>
  A \<^verbatim>\<open>datetime\<close> is an integer number of microseconds, a \<^verbatim>\<open>timedelta\<close> their
  difference. The clock is not assumed to be monotonic. The file system is the set of
  paths for which \<^verbatim>\<open>os.path.exists\<close> holds.
\<close>

type_synonym time = int

definition hours :: "int \<Rightarrow> int" where
  "hours n = n * 3600000000"

definition minutes :: "int \<Rightarrow> int" where
  "minutes n = n * 60000000"

definition seconds :: "int \<Rightarrow> int" where
  "seconds n = n * 1000000"

type_synonym files = "string set"

text \<open>
  A text or a language tag that reaches the audio pipeline is a Python \<^verbatim>\<open>str\<close>: a list
  of Unicode code points, lone surrogates included. \<open>ascii\<close> reads a literal as such a
  string. File paths, digests and audio bytes are byte strings.

  \<open>is_space\<close> holds of the code points that \<^verbatim>\<open>str.strip()\<close> removes, so that
  \<open>blank text\<close> is the truth value of \<^verbatim>\<open>not text.strip()\<close>. \<open>encodable s\<close> says that
  \<^verbatim>\<open>s.encode()\<close> returns: UTF-8 has an encoding for every code point but the surrogates
  \<^verbatim>\<open>U+D800\<close> to \<^verbatim>\<open>U+DFFF\<close>, on which it raises \<^verbatim>\<open>UnicodeEncodeError\<close>.
\<close>

type_synonym str = "nat list"

definition ascii :: "string \<Rightarrow> str" where
  "ascii s = map of_char s"

definition is_space :: "nat \<Rightarrow> bool" where
  "is_space cp =
     ((0x09 \<le> cp \<and> cp \<le> 0x0D) \<or> (0x1C \<le> cp \<and> cp \<le> 0x20) \<or> cp = 0x85 \<or> cp = 0xA0
      \<or> cp = 0x1680 \<or> (0x2000 \<le> cp \<and> cp \<le> 0x200A) \<or> cp = 0x2028 \<or> cp = 0x2029
      \<or> cp = 0x202F \<or> cp = 0x205F \<or> cp = 0x3000)"

definition blank :: "str \<Rightarrow> bool" where
  "blank text = list_all is_space text"

definition surrogate :: "nat \<Rightarrow> bool" where
  "surrogate cp = (0xD800 \<le> cp \<and> cp \<le> 0xDFFF)"

definition encodable :: "str \<Rightarrow> bool" where
  "encodable s = (\<not> list_ex surrogate s)"

datatype error = UnicodeEncodeError | ValueError | GoogleAPIError | OtherError

section \<open>AudioCache (src/audio_manager.py)\<close>

text \<open>
  \<^verbatim>\<open>self.cache\<close> is a dict from the hex digest to \<^verbatim>\<open>{'file_path', 'timestamp'}\<close>,
  kept here as an association list in insertion order. In
  \<^verbatim>\<open>hashlib.md5(key_string.encode()).hexdigest()\<close> the encoding raises on a key string
  that is not encodable; the digest of the encoding of an encodable key string is
  library code and is the parameter \<open>md5\<close> of every operation, so that each result
  holds for any digest function.
\<close>

record entry =
  file_path :: string
  timestamp :: time

type_synonym audio_cache = "(string \<times> entry) list"

definition generate_key :: "(str \<Rightarrow> string) \<Rightarrow> str \<Rightarrow> str \<Rightarrow> error + string" where
  "generate_key md5 text language =
     (let key_string = text @ ascii ''_'' @ language
      in if encodable key_string then Inr (md5 key_string) else Inl UnicodeEncodeError)"

text \<open>
  \<^verbatim>\<open>AudioCache.get\<close>: the result (\<open>Inl\<close> the exception that leaves it) and the cache
  it leaves.
\<close>

definition cache_get ::
  "(str \<Rightarrow> string) \<Rightarrow> int \<Rightarrow> time \<Rightarrow> files \<Rightarrow> audio_cache \<Rightarrow> str \<Rightarrow> str
     \<Rightarrow> (error + string option) \<times> audio_cache" where
  "cache_get md5 ttl now fs c text language =
     (case generate_key md5 text language of
        Inl err \<Rightarrow> (Inl err, c)
      | Inr key \<Rightarrow>
          (case map_of c key of
             None \<Rightarrow> (Inr None, c)
           | Some e \<Rightarrow>
               if now - timestamp e < ttl then
                 (if file_path e \<in> fs then (Inr (Some (file_path e)), c)
                  else (Inr None, AList.delete key c))
               else (Inr None, c)))"

text \<open>
  \<^verbatim>\<open>AudioCache._cleanup_old_entries\<close>: one clock reading; every entry older than the
  TTL has its file unlinked when it exists and its key deleted. An unlink of an existing
  file is taken to succeed (the source ignores an \<^verbatim>\<open>OSError\<close> and deletes the key anyway).
\<close>

definition expired :: "int \<Rightarrow> time \<Rightarrow> entry \<Rightarrow> bool" where
  "expired ttl now e = (now - timestamp e > ttl)"

definition cleanup_old_entries ::
  "int \<Rightarrow> time \<Rightarrow> audio_cache \<Rightarrow> files \<Rightarrow> audio_cache \<times> files" where
  "cleanup_old_entries ttl now c fs =
     (let expired_keys = map fst (filter (\<lambda>(k, e). expired ttl now e) c);
          unlinked = set (map (\<lambda>(k, e). file_path e) (filter (\<lambda>(k, e). expired ttl now e) c))
      in (filter (\<lambda>(k, e). k \<notin> set expired_keys) c, fs - unlinked))"

text \<open>
  \<^verbatim>\<open>AudioCache.set\<close>: the key is generated first; the clock is then read once by the
  cleanup (\<open>now_cleanup\<close>, only when the cleanup runs) and once more for the new entry's
  timestamp (\<open>now_stamp\<close>). The result is \<open>Inl\<close> the exception that leaves the call, with
  nothing changed, or the cache and the files the call leaves.
\<close>

definition cache_set ::
  "(str \<Rightarrow> string) \<Rightarrow> int \<Rightarrow> int \<Rightarrow> time \<Rightarrow> time \<Rightarrow> audio_cache \<Rightarrow> files
     \<Rightarrow> str \<Rightarrow> str \<Rightarrow> string \<Rightarrow> error + audio_cache \<times> files" where
  "cache_set md5 max_size ttl now_cleanup now_stamp c fs text language path =
     (case generate_key md5 text language of
        Inl err \<Rightarrow> Inl err
      | Inr key \<Rightarrow>
          (let (c1, fs1) = (if int (length c) \<ge> max_size
                            then cleanup_old_entries ttl now_cleanup c fs else (c, fs))
           in Inr (AList.update key \<lparr>file_path = path, timestamp = now_stamp\<rparr> c1, fs1)))"

section \<open>UserSession (src/user_state.py)\<close>

text \<open>
  The dataclass \<^verbatim>\<open>UserSession\<close>. Strings are UTF-8 byte strings, so the default level
  \<^verbatim>\<open>"Intermedi\xc3\xa1rio"\<close> has its accented letter as two bytes.
\<close>

record user_session =
  user_id :: int
  name :: string
  position :: string
  english_level :: string
  current_step :: string
  current_lesson_id :: int
  last_audio_text :: string
  last_interaction :: time
  lessons_completed :: "int list"
  total_interactions :: int
  session_start :: time
  waiting_for_name :: bool
  waiting_for_position :: bool
  waiting_for_level :: bool
  onboarding_complete :: bool
  message_timestamps :: "time list"

text \<open>
  \<^verbatim>\<open>UserSession(user_id=user_id)\<close>: the two \<^verbatim>\<open>default_factory=datetime.now\<close> fields read
  the clock one after the other, \<open>t_interaction\<close> first.
\<close>

definition new_session :: "int \<Rightarrow> time \<Rightarrow> time \<Rightarrow> user_session" where
  "new_session uid t_interaction t_start =
     \<lparr>user_id = uid, name = [], position = [],
      english_level = ''Intermedi'' @ [CHR 0xC3, CHR 0xA1] @ ''rio'',
      current_step = ''onboarding'', current_lesson_id = 1, last_audio_text = [],
      last_interaction = t_interaction, lessons_completed = [], total_interactions = 0,
      session_start = t_start, waiting_for_name = False, waiting_for_position = False,
      waiting_for_level = False, onboarding_complete = False, message_timestamps = []\<rparr>"

definition update_last_interaction :: "time \<Rightarrow> user_session \<Rightarrow> user_session" where
  "update_last_interaction now s =
     s\<lparr>last_interaction := now, total_interactions := total_interactions s + 1\<rparr>"

definition add_message_timestamp :: "time \<Rightarrow> user_session \<Rightarrow> user_session" where
  "add_message_timestamp now s =
     (let appended = message_timestamps s @ [now];
          cutoff = now - minutes 1
      in s\<lparr>message_timestamps := filter (\<lambda>ts. ts > cutoff) appended\<rparr>)"

definition is_rate_limited :: "time \<Rightarrow> int \<Rightarrow> user_session \<Rightarrow> bool \<times> user_session" where
  "is_rate_limited now max_messages s =
     (let s' = add_message_timestamp now s
      in (int (length (message_timestamps s')) > max_messages, s'))"

text \<open>
  A run of \<^verbatim>\<open>is_rate_limited()\<close> calls on one session with the default threshold 10,
  one call per clock reading of the list: the results in order, and the session left.
\<close>

fun rate_limit_calls :: "time list \<Rightarrow> user_session \<Rightarrow> bool list \<times> user_session" where
  "rate_limit_calls [] s = ([], s)"
| "rate_limit_calls (t # ts) s =
     (let (r, s') = is_rate_limited t 10 s;
          (rs, s'') = rate_limit_calls ts s'
      in (r # rs, s''))"

section \<open>UserStateManager (src/user_state.py)\<close>

text \<open>
  \<^verbatim>\<open>self.sessions\<close> is a dict from user id to session, \<^verbatim>\<open>self.lock\<close> a
  \<^verbatim>\<open>threading.Lock()\<close>, which is not reentrant: \<^verbatim>\<open>with self.lock\<close> on a lock that
  is held waits until another thread releases it. No other thread ever releases a lock
  it does not hold here, so a call that reaches a held lock never returns: its result
  is \<open>None\<close>.
\<close>

record manager =
  sessions :: "(int \<times> user_session) list"
  lock_held :: bool

definition acquire :: "manager \<Rightarrow> manager option" where
  "acquire m = (if lock_held m then None else Some (m\<lparr>lock_held := True\<rparr>))"

definition release :: "manager \<Rightarrow> manager" where
  "release m = m\<lparr>lock_held := False\<rparr>"

text \<open>
  \<^verbatim>\<open>get_or_create_session\<close>. \<open>t1\<close> and \<open>t2\<close> are the clock readings of the call in
  order: a new session reads both, an existing one only \<open>t1\<close>. The session returned is the
  object stored in the dict.
\<close>

definition get_or_create_session ::
  "time \<Rightarrow> time \<Rightarrow> manager \<Rightarrow> int \<Rightarrow> (user_session \<times> manager) option" where
  "get_or_create_session t1 t2 m uid =
     (case acquire m of
        None \<Rightarrow> None
      | Some m1 \<Rightarrow>
          (let s = (case map_of (sessions m1) uid of
                      None \<Rightarrow> new_session uid t1 t2
                    | Some s0 \<Rightarrow> update_last_interaction t1 s0)
           in Some (s, release (m1\<lparr>sessions := AList.update uid s (sessions m1)\<rparr>))))"

text \<open>
  The keyword arguments of \<^verbatim>\<open>update_session\<close>, one constructor per dataclass field
  with a value of the field's annotated type (\<^verbatim>\<open>user_id\<close> is the positional parameter
  and cannot be passed again); \<open>Unknown k\<close> is a key for which \<^verbatim>\<open>hasattr\<close> is false.
\<close>

datatype field =
    Name string
  | Position string
  | English_level string
  | Current_step string
  | Current_lesson_id int
  | Last_audio_text string
  | Last_interaction time
  | Lessons_completed "int list"
  | Total_interactions int
  | Session_start time
  | Waiting_for_name bool
  | Waiting_for_position bool
  | Waiting_for_level bool
  | Onboarding_complete bool
  | Message_timestamps "time list"
  | Unknown string

fun set_field :: "user_session \<Rightarrow> field \<Rightarrow> user_session" where
  "set_field s (Name v) = s\<lparr>name := v\<rparr>"
| "set_field s (Position v) = s\<lparr>position := v\<rparr>"
| "set_field s (English_level v) = s\<lparr>english_level := v\<rparr>"
| "set_field s (Current_step v) = s\<lparr>current_step := v\<rparr>"
| "set_field s (Current_lesson_id v) = s\<lparr>current_lesson_id := v\<rparr>"
| "set_field s (Last_audio_text v) = s\<lparr>last_audio_text := v\<rparr>"
| "set_field s (Last_interaction v) = s\<lparr>last_interaction := v\<rparr>"
| "set_field s (Lessons_completed v) = s\<lparr>lessons_completed := v\<rparr>"
| "set_field s (Total_interactions v) = s\<lparr>total_interactions := v\<rparr>"
| "set_field s (Session_start v) = s\<lparr>session_start := v\<rparr>"
| "set_field s (Waiting_for_name v) = s\<lparr>waiting_for_name := v\<rparr>"
| "set_field s (Waiting_for_position v) = s\<lparr>waiting_for_position := v\<rparr>"
| "set_field s (Waiting_for_level v) = s\<lparr>waiting_for_level := v\<rparr>"
| "set_field s (Onboarding_complete v) = s\<lparr>onboarding_complete := v\<rparr>"
| "set_field s (Message_timestamps v) = s\<lparr>message_timestamps := v\<rparr>"
| "set_field s (Unknown k) = s"

text \<open>The loop \<^verbatim>\<open>for key, value in kwargs.items()\<close> of \<^verbatim>\<open>update_session\<close>.\<close>

definition set_fields :: "field list \<Rightarrow> user_session \<Rightarrow> user_session" where
  "set_fields kwargs s = foldl set_field s kwargs"

text \<open>
  \<^verbatim>\<open>update_session\<close>: \<^verbatim>\<open>with self.lock\<close>, then \<^verbatim>\<open>self.get_or_create_session(user_id)\<close>
  inside the critical section, the loop over the keyword arguments,
  \<^verbatim>\<open>update_last_interaction()\<close> (clock reading \<open>t3\<close>) and the return of the session.
\<close>

definition update_session ::
  "time \<Rightarrow> time \<Rightarrow> time \<Rightarrow> manager \<Rightarrow> int \<Rightarrow> field list \<Rightarrow> (user_session \<times> manager) option" where
  "update_session t1 t2 t3 m uid kwargs =
     (case acquire m of
        None \<Rightarrow> None
      | Some m1 \<Rightarrow>
          (case get_or_create_session t1 t2 m1 uid of
             None \<Rightarrow> None
           | Some (s, m2) \<Rightarrow>
               (let s' = update_last_interaction t3 (set_fields kwargs s)
                in Some (s', release (m2\<lparr>sessions := AList.update uid s' (sessions m2)\<rparr>)))))"

section \<open>OnboardingFlow (src/user_state.py)\<close>

text \<open>
  \<^verbatim>\<open>start_onboarding\<close> passes these keyword arguments to \<^verbatim>\<open>update_session\<close> and returns
  a fixed welcome text, which is left out of the result here.
\<close>

definition start_onboarding_kwargs :: "field list" where
  "start_onboarding_kwargs =
     [Current_step ''onboarding'', Waiting_for_name True, Onboarding_complete False]"

definition start_onboarding :: "time \<Rightarrow> time \<Rightarrow> time \<Rightarrow> manager \<Rightarrow> int \<Rightarrow> manager option" where
  "start_onboarding t1 t2 t3 m uid =
     (case update_session t1 t2 t3 m uid start_onboarding_kwargs of
        None \<Rightarrow> None
      | Some (s, m') \<Rightarrow> Some m')"

section \<open>TTSEngine (src/audio_manager.py)\<close>

text \<open>
  Everything outside the repository that the engine calls is a field of the environment:
  the digest, the clock (\<open>now_at n\<close> is the \<open>n\<close>-th reading of \<^verbatim>\<open>datetime.now()\<close>),
  \<^verbatim>\<open>ContentHelper.clean_text_for_tts\<close> (a total string function whose result only
  reaches the remote request), the remote \<^verbatim>\<open>synthesize_speech\<close> (the answer to the
  \<open>n\<close>-th request: the audio bytes, which may be empty, or the exception it raises), the
  temporary file that \<^verbatim>\<open>NamedTemporaryFile\<close> creates and writes for the clock reading
  \<open>n\<close>, and which of two requests in flight is answered first.
\<close>

record voice_config =
  language_code :: string
  voice_name :: string
  ssml_gender :: string
  speaking_rate :: rat
  pitch :: rat
  volume_gain_db :: rat

datatype write_outcome =
    Written string
  | Write_failed "string option"

record env =
  md5_hexdigest :: "str \<Rightarrow> string"
  now_at :: "nat \<Rightarrow> time"
  clean_text_for_tts :: "str \<Rightarrow> str"
  synthesize_speech :: "nat \<Rightarrow> str \<Rightarrow> voice_config \<Rightarrow> error + string"
  write_temp_file :: "nat \<Rightarrow> string \<Rightarrow> str \<Rightarrow> write_outcome"
  en_finishes_first :: "nat \<Rightarrow> bool"

text \<open>
  What one user's last delivery recorded (the dict stored in \<^verbatim>\<open>last_audio_files\<close>),
  and the state of the audio manager with its surroundings: whether the TTS client was
  initialised, the engine's cache, the files on disk, the records, the number of clock
  readings made, and the remote requests issued so far.
\<close>

record last_audio =
  pt :: "string option"
  en :: "string option"
  pt_text :: str
  en_text :: "str option"

record world =
  client_ok :: bool
  cache :: audio_cache
  disk :: files
  last_audio_files :: "(int \<times> last_audio) list"
  ticks :: nat
  requests :: "(str \<times> voice_config) list"

definition read_clock :: "env \<Rightarrow> world \<Rightarrow> time \<times> world" where
  "read_clock ev w = (now_at ev (ticks w), w\<lparr>ticks := Suc (ticks w)\<rparr>)"

text \<open>\<^verbatim>\<open>Config.TTS_PT_CONFIG\<close>, \<^verbatim>\<open>Config.TTS_EN_CONFIG\<close> and \<^verbatim>\<open>_get_voice_config\<close>.\<close>

definition TTS_PT_CONFIG :: voice_config where
  "TTS_PT_CONFIG =
     \<lparr>language_code = ''pt-BR'', voice_name = ''pt-BR-Wavenet-B'', ssml_gender = ''MALE'',
      speaking_rate = 9 / 10, pitch = 0, volume_gain_db = 0\<rparr>"

definition TTS_EN_CONFIG :: voice_config where
  "TTS_EN_CONFIG =
     \<lparr>language_code = ''en-US'', voice_name = ''en-US-Wavenet-D'', ssml_gender = ''MALE'',
      speaking_rate = 85 / 100, pitch = 0, volume_gain_db = 0\<rparr>"

definition get_voice_config :: "str \<Rightarrow> error + voice_config" where
  "get_voice_config language =
     (if language = ascii ''pt-BR'' then Inr TTS_PT_CONFIG
      else if language = ascii ''en-US'' then Inr TTS_EN_CONFIG
      else Inl ValueError)"

text \<open>The truth value of an \<^verbatim>\<open>Optional[str]\<close> that holds a path.\<close>

definition truthy :: "string option \<Rightarrow> bool" where
  "truthy v = (case v of None \<Rightarrow> False | Some x \<Rightarrow> x \<noteq> [])"

text \<open>
  The engine's \<^verbatim>\<open>self.cache = AudioCache()\<close> has the default bound of 100 entries and
  a TTL of one hour. \<^verbatim>\<open>get\<close> generates the key and reads the clock only when the key
  is in the dict; \<^verbatim>\<open>set\<close> generates the key, reads the clock in the cleanup, when
  that runs, and again for the timestamp. A call that raises leaves the world as it was.
\<close>

definition engine_cache_get ::
  "env \<Rightarrow> world \<Rightarrow> str \<Rightarrow> str \<Rightarrow> (error + string option) \<times> world" where
  "engine_cache_get ev w text language =
     (case generate_key (md5_hexdigest ev) text language of
        Inl err \<Rightarrow> (Inl err, w)
      | Inr key \<Rightarrow>
          (case map_of (cache w) key of
             None \<Rightarrow> (Inr None, w)
           | Some e \<Rightarrow>
               (let (now, w1) = read_clock ev w;
                    (r, c') = cache_get (md5_hexdigest ev) (hours 1) now (disk w1) (cache w1)
                                text language
                in (r, w1\<lparr>cache := c'\<rparr>))))"

definition engine_cache_set :: "env \<Rightarrow> world \<Rightarrow> str \<Rightarrow> str \<Rightarrow> string \<Rightarrow> error + world" where
  "engine_cache_set ev w text language path =
     (let (now_cleanup, w1) = (if int (length (cache w)) \<ge> 100 then read_clock ev w else (0, w));
          (now_stamp, w2) = read_clock ev w1
      in case cache_set (md5_hexdigest ev) 100 (hours 1) now_cleanup now_stamp
                (cache w2) (disk w2) text language path of
           Inl err \<Rightarrow> Inl err
         | Inr (c', fs') \<Rightarrow> Inr (w2\<lparr>cache := c', disk := fs'\<rparr>))"

text \<open>
  \<^verbatim>\<open>_save_audio_file\<close>: reads the clock for the file name's suffix, creates and writes
  the file; any exception is caught and gives \<^verbatim>\<open>None\<close> (a file may be left behind).
\<close>

definition save_audio_file :: "env \<Rightarrow> world \<Rightarrow> string \<Rightarrow> str \<Rightarrow> string option \<times> world" where
  "save_audio_file ev w audio_content language =
     (let n = ticks w;
          (now, w1) = read_clock ev w
      in case write_temp_file ev n audio_content language of
           Written path \<Rightarrow> (Some path, w1\<lparr>disk := insert path (disk w1)\<rparr>)
         | Write_failed left_behind \<Rightarrow> (None, w1\<lparr>disk := disk w1 \<union> set_option left_behind\<rparr>))"

text \<open>
  \<^verbatim>\<open>generate_audio\<close> is a coroutine with one point where it yields to the event loop:
  the \<^verbatim>\<open>await\<close> of the remote request. \<open>begin_audio\<close> is the code up to there and
  ends either with the coroutine's result (\<open>Inl\<close> an exception that leaves it) or with
  the request in flight and its eventual answer; \<open>finish_audio\<close> is the code after
  the answer has arrived. The client test, \<^verbatim>\<open>text.strip()\<close> and \<^verbatim>\<open>self.cache.get\<close>
  come before the \<^verbatim>\<open>try\<close>, so an exception of the lookup leaves the coroutine. Inside
  the \<^verbatim>\<open>try\<close>, every exception is caught by \<^verbatim>\<open>except Exception\<close> and the coroutine
  returns \<^verbatim>\<open>None\<close>.
\<close>

datatype step =
    Done "error + string option"
  | Pending "error + string"

definition try_begin :: "env \<Rightarrow> world \<Rightarrow> str \<Rightarrow> str \<Rightarrow> step \<times> world" where
  "try_begin ev w text language =
     (let clean_text = clean_text_for_tts ev text
      in case get_voice_config language of
           Inl e \<Rightarrow> (Done (Inr None), w)
         | Inr voice \<Rightarrow>
             (Pending (synthesize_speech ev (length (requests w)) clean_text voice),
              w\<lparr>requests := requests w @ [(clean_text, voice)]\<rparr>))"

definition begin_audio :: "env \<Rightarrow> world \<Rightarrow> str \<Rightarrow> str \<Rightarrow> step \<times> world" where
  "begin_audio ev w text language =
     (if \<not> client_ok w then (Done (Inr None), w)
      else if blank text then (Done (Inr None), w)
      else (case engine_cache_get ev w text language of
              (Inl err, w1) \<Rightarrow> (Done (Inl err), w1)
            | (Inr cached_file, w1) \<Rightarrow>
                if truthy cached_file then (Done (Inr cached_file), w1)
                else try_begin ev w1 text language))"

definition finish_audio ::
  "env \<Rightarrow> world \<Rightarrow> str \<Rightarrow> str \<Rightarrow> error + string \<Rightarrow> (error + string option) \<times> world" where
  "finish_audio ev w text language response =
     (case response of
        Inl e \<Rightarrow> (Inr None, w)
      | Inr audio_content \<Rightarrow>
          (let (saved, w1) = save_audio_file ev w audio_content language
           in case saved of
                None \<Rightarrow> (Inr None, w1)
              | Some path \<Rightarrow>
                  if path \<noteq> [] then
                    (case engine_cache_set ev w1 text language path of
                       Inl e \<Rightarrow> (Inr None, w1)
                     | Inr w2 \<Rightarrow> (Inr (Some path), w2))
                  else (Inr None, w1)))"

definition generate_audio ::
  "env \<Rightarrow> world \<Rightarrow> str \<Rightarrow> str \<Rightarrow> (error + string option) \<times> world" where
  "generate_audio ev w text language =
     (case begin_audio ev w text language of
        (Done r, w1) \<Rightarrow> (r, w1)
      | (Pending response, w1) \<Rightarrow> finish_audio ev w1 text language response)"

section \<open>DualLanguageAudioManager (src/audio_manager.py)\<close>

text \<open>
  \<^verbatim>\<open>generate_lesson_audio\<close>: \<^verbatim>\<open>asyncio.gather\<close> starts the Portuguese coroutine, then
  the English one, each running up to its \<^verbatim>\<open>await\<close>; the coroutines whose request is in
  flight then finish in the order in which the answers arrive. An exception out of
  \<^verbatim>\<open>gather\<close> is caught and gives \<^verbatim>\<open>(None, None)\<close> without a record; the other
  coroutine still runs to its end.
\<close>

definition generate_lesson_audio ::
  "env \<Rightarrow> world \<Rightarrow> int \<Rightarrow> str \<Rightarrow> str \<Rightarrow> (string option \<times> string option) \<times> world" where
  "generate_lesson_audio ev w uid pt_txt en_txt =
     (let (step_pt, w1) = begin_audio ev w pt_txt (ascii ''pt-BR'');
          (step_en, w2) = begin_audio ev w1 en_txt (ascii ''en-US'');
          (r_pt, r_en, w3) =
            (case (step_pt, step_en) of
               (Done a, Done b) \<Rightarrow> (a, b, w2)
             | (Pending x, Done b) \<Rightarrow>
                 (let (a, w') = finish_audio ev w2 pt_txt (ascii ''pt-BR'') x in (a, b, w'))
             | (Done a, Pending y) \<Rightarrow>
                 (let (b, w') = finish_audio ev w2 en_txt (ascii ''en-US'') y in (a, b, w'))
             | (Pending x, Pending y) \<Rightarrow>
                 (if en_finishes_first ev (length (requests w2))
                  then (let (b, w') = finish_audio ev w2 en_txt (ascii ''en-US'') y;
                            (a, w'') = finish_audio ev w' pt_txt (ascii ''pt-BR'') x
                        in (a, b, w''))
                  else (let (a, w') = finish_audio ev w2 pt_txt (ascii ''pt-BR'') x;
                            (b, w'') = finish_audio ev w' en_txt (ascii ''en-US'') y
                        in (a, b, w''))))
      in case (r_pt, r_en) of
           (Inr pt_path, Inr en_path) \<Rightarrow>
             ((pt_path, en_path),
              w3\<lparr>last_audio_files := AList.update uid
                    \<lparr>pt = pt_path, en = en_path, pt_text = pt_txt, en_text = Some en_txt\<rparr>
                    (last_audio_files w3)\<rparr>)
         | _ \<Rightarrow> ((None, None), w3))"

definition generate_professor_audio ::
  "env \<Rightarrow> world \<Rightarrow> int \<Rightarrow> str \<Rightarrow> (error + string option) \<times> world" where
  "generate_professor_audio ev w uid text =
     (case generate_audio ev w text (ascii ''pt-BR'') of
        (Inl e, w1) \<Rightarrow> (Inl e, w1)
      | (Inr pt_path, w1) \<Rightarrow>
          (if truthy pt_path
           then (Inr pt_path,
                 w1\<lparr>last_audio_files := AList.update uid
                       \<lparr>pt = pt_path, en = None, pt_text = text, en_text = None\<rparr>
                       (last_audio_files w1)\<rparr>)
           else (Inr pt_path, w1)))"

text \<open>
  \<^verbatim>\<open>repeat_last_audio\<close>. \<open>exists_on w v\<close> is the truth value of
  \<^verbatim>\<open>path and os.path.exists(path)\<close>; \<open>nonempty\<close> is the truth value of a recorded
  text, and \<open>text_of\<close> reads one that the test before it has found to be a non-empty
  string.
\<close>

definition nonempty :: "str option \<Rightarrow> bool" where
  "nonempty v = (case v of None \<Rightarrow> False | Some t \<Rightarrow> t \<noteq> [])"

definition text_of :: "str option \<Rightarrow> str" where
  "text_of v = (case v of None \<Rightarrow> [] | Some t \<Rightarrow> t)"

definition exists_on :: "world \<Rightarrow> string option \<Rightarrow> bool" where
  "exists_on w v = (case v of None \<Rightarrow> False | Some path \<Rightarrow> path \<noteq> [] \<and> path \<in> disk w)"

definition needs_regeneration :: "world \<Rightarrow> last_audio \<Rightarrow> bool" where
  "needs_regeneration w la =
     (\<not> exists_on w (pt la) \<or> (truthy (en la) \<and> \<not> exists_on w (en la)))"

definition still_there :: "world \<Rightarrow> last_audio \<Rightarrow> string option \<times> string option" where
  "still_there w la =
     ((if exists_on w (pt la) then pt la else None),
      (if exists_on w (en la) then en la else None))"

definition repeat_last_audio ::
  "env \<Rightarrow> world \<Rightarrow> int \<Rightarrow> (error + string option \<times> string option) \<times> world" where
  "repeat_last_audio ev w uid =
     (case map_of (last_audio_files w) uid of
        None \<Rightarrow> (Inr (None, None), w)
      | Some la \<Rightarrow>
          (if needs_regeneration w la then
             (if pt_text la \<noteq> [] \<and> nonempty (en_text la) then
                (let (r, w') = generate_lesson_audio ev w uid (pt_text la) (text_of (en_text la))
                 in (Inr r, w'))
              else if pt_text la \<noteq> [] then
                (case generate_professor_audio ev w uid (pt_text la) of
                   (Inl e, w') \<Rightarrow> (Inl e, w')
                 | (Inr pt_new, w') \<Rightarrow> (Inr (pt_new, None), w'))
              else (Inr (still_there w la), w))
           else (Inr (still_there w la), w)))"

text \<open>
  Surroundings for concrete runs: a digest that reads the key string back as bytes, a
  clock that advances one microsecond per reading, a remote service that answers every
  request with the same audio bytes, and temporary files named after the clock reading
  and the language. \<open>offline_env\<close> differs in the remote service, which always fails,
  \<open>silent_env\<close> in the remote service, whose answer has no audio bytes, and
  \<open>diskfull_env\<close> in the temporary file, which can never be written.
\<close>

definition plain_digest :: "str \<Rightarrow> string" where
  "plain_digest s = map char_of s"

definition echo_speech :: "nat \<Rightarrow> str \<Rightarrow> voice_config \<Rightarrow> error + string" where
  "echo_speech n clean_text voice = Inr ''OggS''"

definition no_speech :: "nat \<Rightarrow> str \<Rightarrow> voice_config \<Rightarrow> error + string" where
  "no_speech n clean_text voice = Inl GoogleAPIError"

definition silent_speech :: "nat \<Rightarrow> str \<Rightarrow> voice_config \<Rightarrow> error + string" where
  "silent_speech n clean_text voice = Inr []"

definition numbered_file :: "nat \<Rightarrow> string \<Rightarrow> str \<Rightarrow> write_outcome" where
  "numbered_file n audio_content language =
     Written (''tmp'' @ replicate n CHR ''x'' @ ''_'' @ plain_digest language @ ''.ogg'')"

definition no_file :: "nat \<Rightarrow> string \<Rightarrow> str \<Rightarrow> write_outcome" where
  "no_file n audio_content language = Write_failed None"

definition pt_first :: "nat \<Rightarrow> bool" where
  "pt_first n = False"

definition online_env :: env where
  "online_env =
     \<lparr>md5_hexdigest = plain_digest, now_at = int, clean_text_for_tts = id,
      synthesize_speech = echo_speech, write_temp_file = numbered_file,
      en_finishes_first = pt_first\<rparr>"

definition offline_env :: env where
  "offline_env =
     \<lparr>md5_hexdigest = plain_digest, now_at = int, clean_text_for_tts = id,
      synthesize_speech = no_speech, write_temp_file = numbered_file,
      en_finishes_first = pt_first\<rparr>"

definition silent_env :: env where
  "silent_env =
     \<lparr>md5_hexdigest = plain_digest, now_at = int, clean_text_for_tts = id,
      synthesize_speech = silent_speech, write_temp_file = numbered_file,
      en_finishes_first = pt_first\<rparr>"

definition diskfull_env :: env where
  "diskfull_env =
     \<lparr>md5_hexdigest = plain_digest, now_at = int, clean_text_for_tts = id,
      synthesize_speech = echo_speech, write_temp_file = no_file,
      en_finishes_first = pt_first\<rparr>"

definition fresh_world :: world where
  "fresh_world =
     \<lparr>client_ok = True, cache = [], disk = {}, last_audio_files = [], ticks = 0, requests = []\<rparr>"

section \<open>Properties of strings\<close>

lemma ascii_append [simp]: "ascii a @ ascii b = ascii (a @ b)"
  by (simp add: ascii_def)

lemma ascii_append_more [simp]: "ascii a @ ascii b @ t = ascii (a @ b) @ t"
  by (simp add: ascii_def)

lemma ascii_eq_iff [simp]: "ascii a = ascii b \<longleftrightarrow> a = b"
  by (simp add: ascii_def inj_map_eq_map [OF inj_of_char])

lemma ascii_Nil_iff [simp]: "ascii s = [] \<longleftrightarrow> s = []"
  by (simp add: ascii_def)

lemma plain_digest_ascii [simp]: "plain_digest (ascii s) = s"
  by (simp add: plain_digest_def ascii_def comp_def)

lemma encodable_ascii [simp]: "encodable (ascii s)"
proof -
  have "\<not> surrogate (of_char ch)" for ch :: char
  proof -
    have "of_char ch < (256 :: nat)"
      by (rule nat_of_char_less_256)
    then show ?thesis
      unfolding surrogate_def by linarith
  qed
  then show ?thesis
    by (simp add: encodable_def ascii_def list_ex_iff)
qed

lemma generate_key_ascii [simp]:
  "generate_key md5 (ascii t) (ascii l) = Inr (md5 (ascii (t @ ''_'' @ l)))"
  by (simp add: generate_key_def)

lemma generate_key_cases:
  "generate_key md5 text language = Inr key \<longleftrightarrow>
     encodable (text @ ascii ''_'' @ language) \<and> key = md5 (text @ ascii ''_'' @ language)"
  by (auto simp: generate_key_def Let_def)

text \<open>
  Blank texts: the non-breaking space, the next-line control and the ideographic space
  are stripped like the ASCII space; the zero-width space and a lone surrogate are not.
\<close>

lemma blank_unicode_whitespace:
  "blank [0x09, 0x0D, 0x1C, 0x20, 0x85, 0xA0, 0x1680, 0x2000, 0x200A, 0x2028, 0x2029, 0x202F,
          0x205F, 0x3000]
   \<and> \<not> blank [0x200B] \<and> \<not> blank [0xD83D] \<and> \<not> blank [0x20, 0x61]"
  by (simp add: blank_def is_space_def)

section \<open>Properties of the cache\<close>

lemma length_update_distinct:
  "distinct (map fst al) \<Longrightarrow>
   length (AList.update k v al) = Suc (length (filter (\<lambda>(k', e). k' \<noteq> k) al))"
proof (induction al)
  case Nil
  then show ?case by simp
next
  case (Cons a al)
  obtain k' e where a: "a = (k', e)" by (cases a)
  show ?case
  proof (cases "k' = k")
    case True
    with Cons.prems a have "k \<notin> fst ` set al" by auto
    then have "filter (\<lambda>(k', e). k' \<noteq> k) al = al"
      by (force simp: filter_id_conv)
    with True a show ?thesis by simp
  next
    case False
    with Cons a show ?thesis by simp
  qed
qed

lemma map_of_filter_keys:
  "map_of (filter (\<lambda>(k, e). k \<notin> S) c) k = (if k \<in> S then None else map_of c k)"
  by (induction c) auto

lemma expired_keys_iff:
  assumes "distinct (map fst c)" and "(k, e) \<in> set c"
  shows "k \<in> set (map fst (filter (\<lambda>(k, e). expired ttl now e) c)) \<longleftrightarrow> expired ttl now e"
proof
  assume "k \<in> set (map fst (filter (\<lambda>(k, e). expired ttl now e) c))"
  then obtain e' where in_c: "(k, e') \<in> set c" and ex: "expired ttl now e'"
    by auto
  from assms(1) in_c assms(2) have "e' = e"
    by (meson eq_key_imp_eq_value)
  with ex show "expired ttl now e" by simp
next
  assume "expired ttl now e"
  with assms(2) show "k \<in> set (map fst (filter (\<lambda>(k, e). expired ttl now e) c))"
    by force
qed

lemma cleanup_filter:
  assumes "distinct (map fst c)"
  shows "fst (cleanup_old_entries ttl now c fs) = filter (\<lambda>(k, e). \<not> expired ttl now e) c"
proof -
  have "filter (\<lambda>(k, e). k \<notin> set (map fst (filter (\<lambda>(k, e). expired ttl now e) c))) c
      = filter (\<lambda>(k, e). \<not> expired ttl now e) c"
  proof (rule filter_cong [OF refl])
    fix x assume x: "x \<in> set c"
    obtain k e where ke: "x = (k, e)" by (cases x)
    from expired_keys_iff [OF assms, of k e ttl now] x ke
    show "(case x of (k, e) \<Rightarrow> k \<notin> set (map fst (filter (\<lambda>(k, e). expired ttl now e) c)))
        = (case x of (k, e) \<Rightarrow> \<not> expired ttl now e)"
      by simp
  qed
  then show ?thesis
    by (simp add: cleanup_old_entries_def Let_def)
qed

lemma cleanup_files:
  "snd (cleanup_old_entries ttl now c fs) = fs - {file_path e |k e. (k, e) \<in> set c \<and> expired ttl now e}"
  by (auto simp: cleanup_old_entries_def Let_def)

lemma map_of_cleanup:
  assumes "distinct (map fst c)"
  shows "map_of (fst (cleanup_old_entries ttl now c fs)) k =
     (if (\<exists>e. map_of c k = Some e \<and> expired ttl now e) then None else map_of c k)"
proof (cases "map_of c k")
  case None
  then have "k \<notin> set (map fst (filter (\<lambda>(k, e). expired ttl now e) c))"
    by (auto simp: map_of_eq_None_iff image_iff) 
  with None show ?thesis
    by (simp add: cleanup_old_entries_def Let_def map_of_filter_keys)
next
  case (Some e)
  then have "(k, e) \<in> set c" by (rule map_of_SomeD)
  from expired_keys_iff [OF assms this, of ttl now] Some show ?thesis
    by (simp add: cleanup_old_entries_def Let_def map_of_filter_keys)
qed

lemma distinct_cleanup:
  "distinct (map fst c) \<Longrightarrow> distinct (map fst (fst (cleanup_old_entries ttl now c fs)))"
  by (simp add: cleanup_old_entries_def Let_def distinct_map_filter)

text \<open>The store, once the key has been generated.\<close>

lemma cache_set_key:
  assumes "generate_key md5 text language = Inr key"
  shows "cache_set md5 max_size ttl now_cleanup now_stamp c fs text language path =
     Inr (AList.update key \<lparr>file_path = path, timestamp = now_stamp\<rparr>
            (if int (length c) \<ge> max_size then fst (cleanup_old_entries ttl now_cleanup c fs) else c),
          (if int (length c) \<ge> max_size then snd (cleanup_old_entries ttl now_cleanup c fs) else fs))"
  using assms by (simp add: cache_set_def Let_def split_beta)

lemma cache_get_key:
  assumes "generate_key md5 text language = Inr key"
  shows "cache_get md5 ttl now fs c text language =
     (case map_of c key of
        None \<Rightarrow> (Inr None, c)
      | Some e \<Rightarrow>
          if now - timestamp e < ttl then
            (if file_path e \<in> fs then (Inr (Some (file_path e)), c)
             else (Inr None, AList.delete key c))
          else (Inr None, c))"
  using assms by (simp add: cache_get_def)

text \<open>
  C1 as stated fails: an entry older than the TTL whose file still exists is a miss, but
  the lookup leaves it in the map.
\<close>

theorem cache_get_keeps_expired_entry:
  "cache_get plain_digest (hours 1) (hours 2) {''a.ogg''}
      [(''hi_pt-BR'', \<lparr>file_path = ''a.ogg'', timestamp = 0\<rparr>)] (ascii ''hi'') (ascii ''pt-BR'')
   = (Inr None, [(''hi_pt-BR'', \<lparr>file_path = ''a.ogg'', timestamp = 0\<rparr>)])"
  by (simp add: cache_get_def hours_def)

text \<open>
  C1, amended: for a text and language whose key string can be encoded, the lookup
  returns an artifact exactly when the fingerprint has an entry that is younger than the
  TTL and whose file exists, and then it is that entry's file; the lookup deletes the
  entry exactly when the entry is younger than the TTL and its file is missing; in every
  other case, a TTL-expired entry included, it returns a miss and the cache map is left
  as it was. When the key string cannot be encoded the lookup raises and the map is
  left as it was.
\<close>

theorem cache_get_behaviour:
  "(\<forall>err. generate_key md5 text language = Inl err \<longrightarrow>
        cache_get md5 ttl now fs c text language = (Inl err, c))
   \<and> (\<forall>key. generate_key md5 text language = Inr key \<longrightarrow>
        (\<exists>r. fst (cache_get md5 ttl now fs c text language) = Inr r)
      \<and> (fst (cache_get md5 ttl now fs c text language) = Inr (Some p) \<longleftrightarrow>
            (\<exists>e. map_of c key = Some e \<and> now - timestamp e < ttl
                 \<and> file_path e \<in> fs \<and> file_path e = p))
      \<and> snd (cache_get md5 ttl now fs c text language) =
            (if (\<exists>e. map_of c key = Some e \<and> now - timestamp e < ttl \<and> file_path e \<notin> fs)
             then AList.delete key c else c))"
  by (auto simp: cache_get_def split: option.splits)

theorem cache_get_behaviour_witness:
  "snd (cache_get plain_digest (hours 1) (hours 2) {''a.ogg''}
      [(''hi_pt-BR'', \<lparr>file_path = ''a.ogg'', timestamp = 0\<rparr>)] (ascii ''hi'') (ascii ''pt-BR''))
   = [(''hi_pt-BR'', \<lparr>file_path = ''a.ogg'', timestamp = 0\<rparr>)]
   \<and> snd (cache_get plain_digest (hours 1) 5 {}
      [(''hi_pt-BR'', \<lparr>file_path = ''a.ogg'', timestamp = 0\<rparr>)] (ascii ''hi'') (ascii ''pt-BR'')) = []
   \<and> cache_get plain_digest (hours 1) 5 {}
      [(''hi_pt-BR'', \<lparr>file_path = ''a.ogg'', timestamp = 0\<rparr>)] [0xD83D] (ascii ''pt-BR'')
      = (Inl UnicodeEncodeError, [(''hi_pt-BR'', \<lparr>file_path = ''a.ogg'', timestamp = 0\<rparr>)])"
proof -
  let ?c = "[(''hi_pt-BR'', \<lparr>file_path = ''a.ogg'', timestamp = 0\<rparr>)]"
  have key: "generate_key plain_digest (ascii ''hi'') (ascii ''pt-BR'') = Inr ''hi_pt-BR''"
    by simp
  have bad: "generate_key plain_digest [0xD83D] (ascii ''pt-BR'') = Inl UnicodeEncodeError"
    by (simp add: generate_key_def encodable_def surrogate_def)
  from cache_get_behaviour [of plain_digest "ascii ''hi''" "ascii ''pt-BR''" "hours 1" "hours 2"
      "{''a.ogg''}" ?c] key
  have 1: "snd (cache_get plain_digest (hours 1) (hours 2) {''a.ogg''} ?c (ascii ''hi'') (ascii ''pt-BR''))
      = ?c"
    by (simp add: hours_def)
  from cache_get_behaviour [of plain_digest "ascii ''hi''" "ascii ''pt-BR''" "hours 1" 5 "{}" ?c] key
  have 2: "snd (cache_get plain_digest (hours 1) 5 {} ?c (ascii ''hi'') (ascii ''pt-BR'')) = []"
    by (simp add: hours_def)
  from cache_get_behaviour [of plain_digest "[0xD83D]" "ascii ''pt-BR''" "hours 1" 5 "{}" ?c] bad
  have 3: "cache_get plain_digest (hours 1) 5 {} ?c [0xD83D] (ascii ''pt-BR'')
      = (Inl UnicodeEncodeError, ?c)"
    by blast
  from 1 2 3 show ?thesis by simp
qed

text \<open>
  C2 as stated fails: with the cache at its bound and a TTL-expired entry that names the
  file of the artifact, the store's purge unlinks that file before it inserts the new
  entry, and the lookup made at once afterwards misses.
\<close>

theorem cache_set_unlinks_stored_file:
  "cache_set plain_digest 1 (hours 1) (hours 3) (hours 3)
      [(''old_pt-BR'', \<lparr>file_path = ''a.ogg'', timestamp = 0\<rparr>)] {''a.ogg''}
      (ascii ''new'') (ascii ''pt-BR'') ''a.ogg''
     = Inr ([(''new_pt-BR'', \<lparr>file_path = ''a.ogg'', timestamp = hours 3\<rparr>)], {})
   \<and> cache_get plain_digest (hours 1) (hours 3) {}
        [(''new_pt-BR'', \<lparr>file_path = ''a.ogg'', timestamp = hours 3\<rparr>)]
        (ascii ''new'') (ascii ''pt-BR'')
     = (Inr None, [])"
  by (simp add: cache_set_def cache_get_def cleanup_old_entries_def expired_def hours_def)

text \<open>
  C2, amended: for a text and language whose key string can be encoded and an artifact
  whose file exists when it is stored, the store succeeds, and a lookup of the same text
  and language made while the new entry is younger than the TTL returns exactly the
  stored path and leaves the cache as the store left it, unless the store's own purge
  unlinked that file (the cache was at its bound and a TTL-expired entry named the same
  file); in that case alone the lookup misses.
\<close>

theorem cache_set_get_roundtrip:
  assumes key: "generate_key md5 text language = Inr key"
    and there: "path \<in> fs" and young: "now - now_stamp < ttl"
  shows "\<exists>c' fs'.
      cache_set md5 max_size ttl now_cleanup now_stamp c fs text language path = Inr (c', fs')
      \<and> cache_get md5 ttl now fs' c' text language =
          (if int (length c) \<ge> max_size
              \<and> (\<exists>k e. (k, e) \<in> set c \<and> expired ttl now_cleanup e \<and> file_path e = path)
           then (Inr None, AList.delete key c') else (Inr (Some path), c'))"
proof -
  let ?purge = "int (length c) \<ge> max_size"
  let ?c1 = "if ?purge then fst (cleanup_old_entries ttl now_cleanup c fs) else c"
  let ?fs' = "if ?purge then snd (cleanup_old_entries ttl now_cleanup c fs) else fs"
  let ?c' = "AList.update key \<lparr>file_path = path, timestamp = now_stamp\<rparr> ?c1"
  have set_eq: "cache_set md5 max_size ttl now_cleanup now_stamp c fs text language path
      = Inr (?c', ?fs')"
    by (rule cache_set_key [OF key])
  have entry: "map_of ?c' key = Some \<lparr>file_path = path, timestamp = now_stamp\<rparr>"
    by (simp add: update_conv')
  have on_disk: "path \<in> ?fs' \<longleftrightarrow>
      \<not> (?purge \<and> (\<exists>k e. (k, e) \<in> set c \<and> expired ttl now_cleanup e \<and> file_path e = path))"
    using there by (auto simp: cleanup_files)
  have "cache_get md5 ttl now ?fs' ?c' text language =
          (if ?purge \<and> (\<exists>k e. (k, e) \<in> set c \<and> expired ttl now_cleanup e \<and> file_path e = path)
           then (Inr None, AList.delete key ?c') else (Inr (Some path), ?c'))"
    using entry young on_disk by (simp add: cache_get_key [OF key])
  with set_eq show ?thesis by blast
qed

theorem cache_set_get_roundtrip_witness:
  "cache_set plain_digest 100 (hours 1) 10 10
        [(''a_pt-BR'', \<lparr>file_path = ''a.ogg'', timestamp = 0\<rparr>)] {''a.ogg'', ''b.ogg''}
        (ascii ''b'') (ascii ''pt-BR'') ''b.ogg''
      = Inr ([(''a_pt-BR'', \<lparr>file_path = ''a.ogg'', timestamp = 0\<rparr>),
              (''b_pt-BR'', \<lparr>file_path = ''b.ogg'', timestamp = 10\<rparr>)], {''a.ogg'', ''b.ogg''})
   \<and> cache_get plain_digest (hours 1) 20 {''a.ogg'', ''b.ogg''}
     [(''a_pt-BR'', \<lparr>file_path = ''a.ogg'', timestamp = 0\<rparr>),
      (''b_pt-BR'', \<lparr>file_path = ''b.ogg'', timestamp = 10\<rparr>)] (ascii ''b'') (ascii ''pt-BR'')
   = (Inr (Some ''b.ogg''),
      [(''a_pt-BR'', \<lparr>file_path = ''a.ogg'', timestamp = 0\<rparr>),
       (''b_pt-BR'', \<lparr>file_path = ''b.ogg'', timestamp = 10\<rparr>)])"
proof -
  let ?c = "[(''a_pt-BR'', \<lparr>file_path = ''a.ogg'', timestamp = 0\<rparr>)]"
  let ?c2 = "[(''a_pt-BR'', \<lparr>file_path = ''a.ogg'', timestamp = 0\<rparr>),
              (''b_pt-BR'', \<lparr>file_path = ''b.ogg'', timestamp = 10\<rparr>)]"
  have key: "generate_key plain_digest (ascii ''b'') (ascii ''pt-BR'') = Inr ''b_pt-BR''"
    by simp
  have there: "''b.ogg'' \<in> {''a.ogg'', ''b.ogg''}"
    by simp
  have young: "(20::int) - 10 < hours 1"
    by (simp add: hours_def)
  have st: "cache_set plain_digest 100 (hours 1) 10 10 ?c {''a.ogg'', ''b.ogg''}
        (ascii ''b'') (ascii ''pt-BR'') ''b.ogg'' = Inr (?c2, {''a.ogg'', ''b.ogg''})"
    by (simp add: cache_set_def)
  from cache_set_get_roundtrip [OF key there young, of 100 10 ?c] st
  have "cache_get plain_digest (hours 1) 20 {''a.ogg'', ''b.ogg''} ?c2 (ascii ''b'') (ascii ''pt-BR'')
      = (Inr (Some ''b.ogg''), ?c2)"
    by simp
  with st show ?thesis by simp
qed

text \<open>
  C3 as stated fails: with a maximum of one entry and one entry that is not expired,
  storing a second fingerprint purges nothing and leaves two entries.
\<close>

theorem cache_set_exceeds_max_size:
  "cache_set plain_digest 1 (hours 1) 10 10
      [(''a_pt-BR'', \<lparr>file_path = ''a.ogg'', timestamp = 0\<rparr>)]
      {''a.ogg''} (ascii ''b'') (ascii ''pt-BR'') ''b.ogg''
   = Inr ([(''a_pt-BR'', \<lparr>file_path = ''a.ogg'', timestamp = 0\<rparr>),
           (''b_pt-BR'', \<lparr>file_path = ''b.ogg'', timestamp = 10\<rparr>)], {''a.ogg''})"
  by (simp add: cache_set_def cleanup_old_entries_def expired_def hours_def)

text \<open>
  C3, amended: the cache can exceed its maximum. For a text and language whose key string
  can be encoded, a store on a cache that holds at least the maximum number of entries
  first purges exactly the entries older than the TTL, deleting their keys and unlinking
  their files; a store on a smaller cache purges nothing; no entry that is not
  TTL-expired is ever evicted. The store then inserts or overwrites the entry of the
  fingerprint with the artifact and the time of the store. So the number of entries
  afterwards is one more than the number of entries under other fingerprints that were
  not purged: at most one more than before, and within the maximum when the count was
  below the maximum before.
\<close>

theorem cache_set_purges_then_inserts:
  assumes dist: "distinct (map fst c)" and key: "generate_key md5 text language = Inr key"
  shows "\<exists>c' fs'.
      cache_set md5 max_size ttl now_cleanup now_stamp c fs text language path = Inr (c', fs')
      \<and> map_of c' key = Some \<lparr>file_path = path, timestamp = now_stamp\<rparr>
      \<and> (\<forall>k. k \<noteq> key \<longrightarrow>
            map_of c' k =
              (if int (length c) \<ge> max_size \<and> (\<exists>e. map_of c k = Some e \<and> expired ttl now_cleanup e)
               then None else map_of c k))
      \<and> fs' = (if int (length c) \<ge> max_size
               then fs - {file_path e |k e. (k, e) \<in> set c \<and> expired ttl now_cleanup e}
               else fs)
      \<and> length c' =
           Suc (length (filter (\<lambda>(k, e). k \<noteq> key
                  \<and> \<not> (int (length c) \<ge> max_size \<and> expired ttl now_cleanup e)) c))
      \<and> length c' \<le> Suc (length c)
      \<and> (int (length c) < max_size \<longrightarrow> int (length c') \<le> max_size)
      \<and> distinct (map fst c')"
proof -
  let ?purge = "int (length c) \<ge> max_size"
  let ?c1 = "if ?purge then fst (cleanup_old_entries ttl now_cleanup c fs) else c"
  let ?fs' = "if ?purge then snd (cleanup_old_entries ttl now_cleanup c fs) else fs"
  let ?c' = "AList.update key \<lparr>file_path = path, timestamp = now_stamp\<rparr> ?c1"
  have set_eq: "cache_set md5 max_size ttl now_cleanup now_stamp c fs text language path
      = Inr (?c', ?fs')"
    by (rule cache_set_key [OF key])
  have c1: "?c1 = filter (\<lambda>(k, e). \<not> (?purge \<and> expired ttl now_cleanup e)) c"
    by (simp add: cleanup_filter [OF dist])
  have d1: "distinct (map fst ?c1)"
    using dist by (simp add: distinct_cleanup)
  have new: "map_of ?c' key = Some \<lparr>file_path = path, timestamp = now_stamp\<rparr>"
    by (simp add: update_conv')
  have others: "\<forall>k. k \<noteq> key \<longrightarrow>
            map_of ?c' k =
              (if ?purge \<and> (\<exists>e. map_of c k = Some e \<and> expired ttl now_cleanup e)
               then None else map_of c k)"
    by (simp add: update_conv' map_of_cleanup [OF dist])
  have files: "?fs' = (if ?purge
               then fs - {file_path e |k e. (k, e) \<in> set c \<and> expired ttl now_cleanup e}
               else fs)"
    by (simp add: cleanup_files)
  have "length ?c' = Suc (length (filter (\<lambda>(k', e). k' \<noteq> key) ?c1))"
    by (rule length_update_distinct [OF d1])
  also have "filter (\<lambda>(k', e). k' \<noteq> key) ?c1
      = filter (\<lambda>(k, e). k \<noteq> key \<and> \<not> (?purge \<and> expired ttl now_cleanup e)) c"
    by (subst c1) (simp add: case_prod_unfold conj_commute)
  finally have count: "length ?c' =
      Suc (length (filter (\<lambda>(k, e). k \<noteq> key \<and> \<not> (?purge \<and> expired ttl now_cleanup e)) c))" .
  have le: "length ?c' \<le> Suc (length c)"
    unfolding count by simp
  have below: "int (length c) < max_size \<longrightarrow> int (length ?c') \<le> max_size"
    using le by linarith
  have d': "distinct (map fst ?c')"
    using d1 by (rule distinct_update)
  from set_eq new others files count le below d' show ?thesis
    by blast
qed

theorem cache_set_purges_then_inserts_witness:
  "cache_set plain_digest 2 (hours 1) (hours 3) (hours 3)
      [(''old_pt-BR'', \<lparr>file_path = ''a.ogg'', timestamp = 0\<rparr>),
       (''edge_pt-BR'', \<lparr>file_path = ''b.ogg'', timestamp = hours 2\<rparr>)] {''a.ogg'', ''b.ogg''}
      (ascii ''goal'') (ascii ''en-US'') ''c.ogg''
   = Inr ([(''edge_pt-BR'', \<lparr>file_path = ''b.ogg'', timestamp = hours 2\<rparr>),
           (''goal_en-US'', \<lparr>file_path = ''c.ogg'', timestamp = hours 3\<rparr>)], {''b.ogg''})"
proof -
  let ?c = "[(''old_pt-BR'', \<lparr>file_path = ''a.ogg'', timestamp = 0\<rparr>),
       (''edge_pt-BR'', \<lparr>file_path = ''b.ogg'', timestamp = hours 2\<rparr>)]"
  have dist: "distinct (map fst ?c)"
    by simp
  have key: "generate_key plain_digest (ascii ''goal'') (ascii ''en-US'') = Inr ''goal_en-US''"
    by simp
  from cache_set_purges_then_inserts [OF dist key, of 2 "hours 1" "hours 3" "hours 3"
      "{''a.ogg'', ''b.ogg''}" "''c.ogg''"]
  obtain c' fs' where
    r: "cache_set plain_digest 2 (hours 1) (hours 3) (hours 3) ?c {''a.ogg'', ''b.ogg''}
          (ascii ''goal'') (ascii ''en-US'') ''c.ogg'' = Inr (c', fs')"
    and n: "length c' \<le> Suc (length ?c)"
    by blast
  from r show ?thesis
    by (auto simp: cache_set_def cleanup_old_entries_def expired_def hours_def)
qed

section \<open>Properties of the session record\<close>

lemma is_rate_limited_eq:
  "is_rate_limited now mx s =
     (mx < int (length (filter (\<lambda>t. now - t < minutes 1) (message_timestamps s @ [now]))),
      s\<lparr>message_timestamps := filter (\<lambda>t. now - t < minutes 1) (message_timestamps s @ [now])\<rparr>)"
proof -
  have "(\<lambda>ts. now - minutes 1 < ts) = (\<lambda>t. now - t < minutes 1)"
    by (rule ext) arith
  then show ?thesis
    by (simp add: is_rate_limited_def add_message_timestamp_def Let_def)
qed

lemma length_rate_limit_calls: "length (fst (rate_limit_calls ts s)) = length ts"
  by (induction ts arbitrary: s) (simp_all add: Let_def split_beta)

lemma last_rate_limit_calls:
  "ts \<noteq> [] \<Longrightarrow>
   last (fst (rate_limit_calls ts s))
     = (10 < int (length (message_timestamps (snd (rate_limit_calls ts s)))))"
proof (induction ts arbitrary: s)
  case Nil
  then show ?case by simp
next
  case (Cons t ts)
  show ?case
  proof (cases "ts = []")
    case True
    then show ?thesis
      by (simp add: is_rate_limited_def Let_def split_beta)
  next
    case False
    then have ne: "fst (rate_limit_calls ts (snd (is_rate_limited t 10 s))) \<noteq> []"
      using length_rate_limit_calls [of ts "snd (is_rate_limited t 10 s)"] by auto
    from Cons.IH [OF False, of "snd (is_rate_limited t 10 s)"] ne show ?thesis
      by (simp add: Let_def split_beta)
  qed
qed

lemma calls_keep:
  assumes "\<forall>t\<in>set (pre @ ts). \<forall>u\<in>set (pre @ ts). t - u < minutes 1"
    and "message_timestamps s = old @ pre"
  shows "\<exists>old'. message_timestamps (snd (rate_limit_calls ts s)) = old' @ pre @ ts"
  using assms
proof (induction ts arbitrary: s old pre)
  case Nil
  then show ?case by simp
next
  case (Cons t ts)
  let ?s1 = "snd (is_rate_limited t 10 s)"
  have young: "\<forall>u\<in>set (pre @ [t]). t - u < minutes 1"
    using Cons.prems(1) by auto
  then have keep: "filter (\<lambda>u. t - u < minutes 1) (pre @ [t]) = pre @ [t]"
    by (simp only: filter_id_conv) 
  have s1: "message_timestamps ?s1 = filter (\<lambda>u. t - u < minutes 1) old @ (pre @ [t])"
    using keep by (simp add: is_rate_limited_eq Cons.prems(2))
  have close: "\<forall>a\<in>set ((pre @ [t]) @ ts). \<forall>b\<in>set ((pre @ [t]) @ ts). a - b < minutes 1"
    using Cons.prems(1) by auto
  from Cons.IH [OF close s1]
  obtain old' where "message_timestamps (snd (rate_limit_calls ts ?s1)) = old' @ (pre @ [t]) @ ts"
    by blast
  then show ?case
    by (simp add: Let_def split_beta)
qed

lemma eleventh_call_limited:
  assumes "length ts = 11" and "\<forall>t\<in>set ts. \<forall>u\<in>set ts. t - u \<le> seconds 5"
  shows "last (fst (rate_limit_calls ts s))"
proof -
  have close: "\<forall>t\<in>set ([] @ ts). \<forall>u\<in>set ([] @ ts). t - u < minutes 1"
  proof (intro ballI)
    fix t u
    assume "t \<in> set ([] @ ts)" and "u \<in> set ([] @ ts)"
    with assms(2) have "t - u \<le> seconds 5" by simp
    then show "t - u < minutes 1" by (simp add: seconds_def minutes_def)
  qed
  have "message_timestamps s = message_timestamps s @ []" by simp
  from calls_keep [OF close this]
  obtain old' where "message_timestamps (snd (rate_limit_calls ts s)) = old' @ ts"
    by auto
  then have "10 < int (length (message_timestamps (snd (rate_limit_calls ts s))))"
    using assms(1) by simp
  moreover have "ts \<noteq> []" using assms(1) by auto
  ultimately show ?thesis
    by (simp add: last_rate_limit_calls)
qed

lemma idle_call_not_limited:
  assumes "\<forall>t\<in>set (message_timestamps s). seconds 61 \<le> now - t"
  shows "\<not> fst (is_rate_limited now 10 s)"
proof -
  have "filter (\<lambda>t. now - t < minutes 1) (message_timestamps s) = []"
    using assms by (auto simp: filter_empty_conv seconds_def minutes_def)
  then show ?thesis
    by (simp add: is_rate_limited_eq minutes_def)
qed

text \<open>
  C7: with the threshold 10, a call of \<open>is_rate_limited\<close> appends the current clock
  reading to the session's timestamps, keeps of them only those less than 60 seconds
  old, and returns whether more than 10 remain. Hence the last of 11 calls whose clock
  readings lie within 5 seconds of each other returns true, whatever the session was
  before, and a call made when every recorded timestamp is at least 61 seconds old
  returns false.
\<close>

theorem is_rate_limited_window:
  "is_rate_limited now 10 s =
      (10 < int (length (filter (\<lambda>t. now - t < minutes 1) (message_timestamps s @ [now]))),
       s\<lparr>message_timestamps := filter (\<lambda>t. now - t < minutes 1) (message_timestamps s @ [now])\<rparr>)
   \<and> (length ts = 11 \<and> (\<forall>t\<in>set ts. \<forall>u\<in>set ts. t - u \<le> seconds 5)
        \<longrightarrow> last (fst (rate_limit_calls ts s)) = True)
   \<and> ((\<forall>t\<in>set (message_timestamps s). seconds 61 \<le> now - t)
        \<longrightarrow> fst (is_rate_limited now 10 s) = False)"
  using is_rate_limited_eq [of now 10 s] eleventh_call_limited [of ts s] idle_call_not_limited [of s now]
  by blast

theorem is_rate_limited_window_witness:
  "last (fst (rate_limit_calls
      [0, 400000, 800000, 1200000, 1600000, 2000000, 2400000, 2800000, 3200000, 3600000, 4000000]
      (new_session 7 0 0))) = True
   \<and> fst (is_rate_limited 65000000 10 ((new_session 7 0 0)\<lparr>message_timestamps := [3600000, 4000000]\<rparr>)) = False"
proof -
  let ?ts = "[0, 400000, 800000, 1200000, 1600000, 2000000, 2400000, 2800000, 3200000, 3600000,
              4000000 :: int]"
  let ?s = "(new_session 7 0 0)\<lparr>message_timestamps := [3600000, 4000000]\<rparr>"
  have burst: "length ?ts = 11 \<and> (\<forall>t\<in>set ?ts. \<forall>u\<in>set ?ts. t - u \<le> seconds 5)"
    by (simp add: seconds_def)
  have quiet: "\<forall>t\<in>set (message_timestamps ?s). seconds 61 \<le> 65000000 - t"
    by (simp add: seconds_def)
  from is_rate_limited_window [of 0 "new_session 7 0 0" ?ts] burst
  have "last (fst (rate_limit_calls ?ts (new_session 7 0 0))) = True"
    by blast
  moreover from is_rate_limited_window [of 65000000 ?s ?ts] quiet
  have "fst (is_rate_limited 65000000 10 ?s) = False"
    by blast
  ultimately show ?thesis by simp
qed

section \<open>Properties of the session store\<close>

text \<open>
  C8 as stated fails in the creation case: the session created for an unknown user has
  the interaction counter 0, not 1.
\<close>

theorem get_or_create_session_new_counter_zero:
  "map_option (\<lambda>r. total_interactions (fst r))
     (get_or_create_session 5 6 \<lparr>sessions = [], lock_held = False\<rparr> 7) = Some 0"
  by (simp add: get_or_create_session_def acquire_def release_def Let_def new_session_def)

text \<open>
  C8, amended: on a store whose lock is free, \<open>get_or_create_session\<close> returns the
  session that the store then holds for the user id, frees the lock again and leaves
  the other users' sessions alone. For an unknown id that session is the default-valued
  one (counter 0, last interaction the time of creation); only for a known id is it the
  previous session with the last-interaction time refreshed and the counter incremented.
\<close>

theorem get_or_create_session_result:
  assumes "\<not> lock_held m"
  shows "\<exists>s m'. get_or_create_session t1 t2 m uid = Some (s, m')
      \<and> map_of (sessions m') uid = Some s \<and> \<not> lock_held m'
      \<and> (\<forall>u. u \<noteq> uid \<longrightarrow> map_of (sessions m') u = map_of (sessions m) u)
      \<and> (case map_of (sessions m) uid of
            None \<Rightarrow> s = new_session uid t1 t2
          | Some s0 \<Rightarrow>
              s = s0\<lparr>last_interaction := t1, total_interactions := total_interactions s0 + 1\<rparr>)"
  using assms
  by (auto simp: get_or_create_session_def acquire_def release_def Let_def update_conv'
        update_last_interaction_def split: option.splits)

theorem get_or_create_session_result_witness:
  "get_or_create_session 8 9 \<lparr>sessions = [(7, new_session 7 5 6)], lock_held = False\<rparr> 7
     = Some ((new_session 7 5 6)\<lparr>last_interaction := 8, total_interactions := 1\<rparr>,
             \<lparr>sessions = [(7, (new_session 7 5 6)\<lparr>last_interaction := 8, total_interactions := 1\<rparr>)],
              lock_held = False\<rparr>)"
proof -
  have free: "\<not> lock_held \<lparr>sessions = [(7, new_session 7 5 6)], lock_held = False\<rparr>"
    by simp
  from get_or_create_session_result [OF free, of 8 9 7]
  obtain s m' where
    r: "get_or_create_session 8 9 \<lparr>sessions = [(7, new_session 7 5 6)], lock_held = False\<rparr> 7
          = Some (s, m')"
    and s: "s = (new_session 7 5 6)\<lparr>last_interaction := 8,
                  total_interactions := total_interactions (new_session 7 5 6) + 1\<rparr>"
    by auto
  from r have "m' = \<lparr>sessions = [(7, s)], lock_held = False\<rparr>"
    by (auto simp: get_or_create_session_def acquire_def release_def Let_def)
  with r s show ?thesis
    by (simp add: new_session_def)
qed

lemma update_session_never_returns: "update_session t1 t2 t3 m uid kwargs = None"
  by (simp add: update_session_def get_or_create_session_def acquire_def split: option.splits)

lemma start_onboarding_never_returns: "start_onboarding t1 t2 t3 m uid = None"
  by (simp add: start_onboarding_def update_session_never_returns)

text \<open>
  What \<open>start_onboarding\<close> asks of the store is one \<open>update_session\<close> with the step
  \<open>onboarding\<close>, waiting-for-name true and onboarding-complete false. Applied to a
  session, these keyword arguments set exactly these three fields and leave the name,
  the position, the level and the other two waiting flags as they were.
\<close>

lemma start_onboarding_request:
  "start_onboarding t1 t2 t3 m uid =
     map_option snd
       (update_session t1 t2 t3 m uid
          [Current_step ''onboarding'', Waiting_for_name True, Onboarding_complete False])"
  by (simp add: start_onboarding_def start_onboarding_kwargs_def split: option.splits)

lemma start_onboarding_fields:
  "set_fields start_onboarding_kwargs s
     = s\<lparr>current_step := ''onboarding'', waiting_for_name := True, onboarding_complete := False\<rparr>
   \<and> name (set_fields start_onboarding_kwargs s) = name s
   \<and> position (set_fields start_onboarding_kwargs s) = position s
   \<and> english_level (set_fields start_onboarding_kwargs s) = english_level s
   \<and> waiting_for_position (set_fields start_onboarding_kwargs s) = waiting_for_position s
   \<and> waiting_for_level (set_fields start_onboarding_kwargs s) = waiting_for_level s"
  by (simp add: set_fields_def start_onboarding_kwargs_def)

text \<open>
  C9: re-entering onboarding should put the session back at the awaiting-name step with
  onboarding-complete false. For a user who has completed onboarding, on a store whose
  lock is free, \<open>start_onboarding\<close> calls \<open>update_session\<close>, which takes the lock and
  then waits for it in \<open>get_or_create_session\<close>: the call never returns and no field
  of the session is set.
\<close>

theorem start_onboarding_blocks_on_own_lock:
  "start_onboarding 1 2 3
     \<lparr>sessions =
        [(7, (new_session 7 0 0)\<lparr>name := ''Ana'', position := ''Goleiro'',
                english_level := ''Iniciante'', current_step := ''lesson'',
                onboarding_complete := True\<rparr>)],
      lock_held = False\<rparr> 7 = None"
  by (simp add: start_onboarding_def update_session_def get_or_create_session_def acquire_def)

text \<open>
  C10: on a fresh store, \<open>update_session\<close> for an unknown user takes the store's lock
  and then calls \<open>get_or_create_session\<close>, which waits for the same lock: the call
  never returns, and no session is created or returned.
\<close>

theorem update_session_blocks_on_own_lock:
  "update_session 1 2 3 \<lparr>sessions = [], lock_held = False\<rparr> 7 [Name ''Ana''] = None"
  by (simp add: update_session_def get_or_create_session_def acquire_def)

section \<open>Properties of the synthesis engine\<close>

lemmas run_defs = generate_audio_def begin_audio_def try_begin_def finish_audio_def
  engine_cache_get_def engine_cache_set_def save_audio_file_def read_clock_def
  cache_get_def cache_set_def online_env_def offline_env_def silent_env_def diskfull_env_def
  fresh_world_def echo_speech_def no_speech_def silent_speech_def numbered_file_def no_file_def
  get_voice_config_def truthy_def hours_def Let_def TTS_PT_CONFIG_def TTS_EN_CONFIG_def

lemma not_blank_goal [simp]: "\<not> blank (ascii ''goal'')"
  by (simp add: blank_def ascii_def is_space_def)

lemma not_blank_gol [simp]: "\<not> blank (ascii ''gol'')"
  by (simp add: blank_def ascii_def is_space_def)

lemma not_blank_bom [simp]: "\<not> blank (ascii ''bom'')"
  by (simp add: blank_def ascii_def is_space_def)

lemma not_blank_x [simp]: "\<not> blank (ascii ''x'')" "\<not> blank (ascii ''x_y'')"
  by (simp_all add: blank_def ascii_def is_space_def)

lemma blank_Nil [simp]: "blank []"
  by (simp add: blank_def)

lemma not_blank_nonempty: "\<not> blank t \<Longrightarrow> t \<noteq> []"
  by (auto simp: blank_def)

lemma requests_engine_cache_get [simp]:
  "requests (snd (engine_cache_get ev w text language)) = requests w"
  by (simp add: engine_cache_get_def read_clock_def Let_def split_beta
        split: sum.splits option.splits)

lemma client_engine_cache_get [simp]:
  "client_ok (snd (engine_cache_get ev w text language)) = client_ok w"
  by (simp add: engine_cache_get_def read_clock_def Let_def split_beta
        split: sum.splits option.splits)

lemma engine_cache_get_raises:
  "fst (engine_cache_get ev w text language) = Inl err \<longleftrightarrow>
     generate_key (md5_hexdigest ev) text language = Inl err"
  by (auto simp: engine_cache_get_def read_clock_def cache_get_def Let_def split_beta
        split: sum.splits option.splits)

lemma generate_audio_rejects:
  "\<not> client_ok w \<or> blank text \<Longrightarrow> generate_audio ev w text language = (Inr None, w)"
  by (auto simp: generate_audio_def begin_audio_def)

lemma generate_audio_raises:
  assumes "client_ok w" and "\<not> blank text" and "\<not> encodable (text @ ascii ''_'' @ language)"
  shows "generate_audio ev w text language = (Inl UnicodeEncodeError, w)"
  using assms
  by (simp add: generate_audio_def begin_audio_def engine_cache_get_def generate_key_def)

lemma finish_audio_returns: "\<exists>r. fst (finish_audio ev w text language response) = Inr r"
  by (simp add: finish_audio_def Let_def split_beta split: sum.splits option.splits)

lemma generate_audio_returns:
  assumes "encodable (text @ ascii ''_'' @ language)"
  shows "\<exists>r. fst (generate_audio ev w text language) = Inr r"
proof (cases "begin_audio ev w text language")
  case (Pair st w1)
  show ?thesis
  proof (cases st)
    case (Done r)
    from assms obtain r0 where "fst (engine_cache_get ev w text language) = Inr r0"
      by (cases "fst (engine_cache_get ev w text language)")
        (simp_all add: engine_cache_get_raises generate_key_def)
    then obtain w0 where "engine_cache_get ev w text language = (Inr r0, w0)"
      by (cases "engine_cache_get ev w text language") simp
    with Pair Done have "\<exists>f. r = Inr f"
      by (auto simp: begin_audio_def try_begin_def Let_def
            split: if_splits sum.splits)
    with Pair Done show ?thesis
      by (auto simp: generate_audio_def)
  next
    case (Pending response)
    with Pair show ?thesis
      using finish_audio_returns [of ev w1 "text" language response]
      by (simp add: generate_audio_def)
  qed
qed

lemma generate_audio_hit:
  assumes "client_ok w" and "\<not> blank text"
    and "generate_key (md5_hexdigest ev) text language = Inr key"
    and "map_of (cache w) key = Some e"
    and "now_at ev (ticks w) - timestamp e < hours 1"
    and "file_path e \<in> disk w" and "file_path e \<noteq> []"
  shows "generate_audio ev w text language = (Inr (Some (file_path e)), w\<lparr>ticks := Suc (ticks w)\<rparr>)"
  using assms
  by (simp add: generate_audio_def begin_audio_def engine_cache_get_def read_clock_def
        cache_get_def truthy_def Let_def)

lemma cache_after_set:
  assumes "engine_cache_set ev w text language path = Inr w2"
  shows "\<exists>key t. generate_key (md5_hexdigest ev) text language = Inr key
      \<and> map_of (cache w2) key = Some \<lparr>file_path = path, timestamp = t\<rparr>"
  using assms
  by (auto simp: engine_cache_set_def read_clock_def cache_set_def Let_def split_beta update_conv'
        split: sum.splits if_splits)

lemma cached_after_finish:
  assumes "fst (finish_audio ev w text language response) = Inr (Some p)"
  shows "\<exists>key t. generate_key (md5_hexdigest ev) text language = Inr key
      \<and> map_of (cache (snd (finish_audio ev w text language response))) key
          = Some \<lparr>file_path = p, timestamp = t\<rparr>"
proof -
  from assms obtain w1 w2 where
    "engine_cache_set ev w1 text language p = Inr w2"
    and "snd (finish_audio ev w text language response) = w2"
    by (auto simp: finish_audio_def Let_def split_beta
          split: sum.splits option.splits if_splits)
  with cache_after_set [of ev w1 "text" language p w2] show ?thesis
    by simp
qed

lemma cached_after_lookup:
  assumes "fst (engine_cache_get ev w text language) = Inr (Some p)"
  shows "\<exists>key t. generate_key (md5_hexdigest ev) text language = Inr key
      \<and> map_of (cache (snd (engine_cache_get ev w text language))) key
          = Some \<lparr>file_path = p, timestamp = t\<rparr>"
proof -
  from assms obtain key e where key: "generate_key (md5_hexdigest ev) text language = Inr key"
    and e: "map_of (cache w) key = Some e"
    and p: "file_path e = p"
    and same: "cache (snd (engine_cache_get ev w text language)) = cache w"
    by (auto simp: engine_cache_get_def read_clock_def cache_get_def Let_def
          split: sum.splits option.splits if_splits)
  have "e = \<lparr>file_path = file_path e, timestamp = timestamp e\<rparr>"
    by simp
  with key e p same show ?thesis
    by metis
qed

lemma returned_artifact_is_cached:
  assumes "fst (generate_audio ev w text language) = Inr (Some p)"
  shows "\<exists>key t. generate_key (md5_hexdigest ev) text language = Inr key
      \<and> map_of (cache (snd (generate_audio ev w text language))) key
          = Some \<lparr>file_path = p, timestamp = t\<rparr>"
proof (cases "begin_audio ev w text language")
  case (Pair st w1)
  show ?thesis
  proof (cases st)
    case (Done r)
    with Pair assms have r: "r = Inr (Some p)"
      by (simp add: generate_audio_def)
    with Pair Done have "fst (engine_cache_get ev w text language) = Inr (Some p)
        \<and> w1 = snd (engine_cache_get ev w text language)"
      by (auto simp: begin_audio_def try_begin_def Let_def split_beta
            split: if_splits sum.splits prod.splits)
    with cached_after_lookup [of ev w "text" language p] Pair Done show ?thesis
      by (simp add: generate_audio_def)
  next
    case (Pending response)
    with Pair assms cached_after_finish [of ev w1 "text" language response p] show ?thesis
      by (simp add: generate_audio_def)
  qed
qed

lemma lesson_without_client:
  assumes "\<not> client_ok w"
  shows "generate_lesson_audio ev w uid a b =
     ((None, None),
      w\<lparr>last_audio_files := AList.update uid
           \<lparr>pt = None, en = None, pt_text = a, en_text = Some b\<rparr> (last_audio_files w)\<rparr>)"
  using assms by (simp add: generate_lesson_audio_def begin_audio_def)

text \<open>
  C4 as stated fails: with the remote service down, the same request is absent on an
  empty cache and present when the cache holds an entry for it, so the result depends
  on the cache; and a successful synthesis leaves a new entry in the cache.
\<close>

theorem generate_audio_uses_cache_counterexample:
  "fst (generate_audio offline_env (fresh_world\<lparr>disk := {''a.ogg''}\<rparr>)
          (ascii ''goal'') (ascii ''en-US'')) = Inr None
   \<and> fst (generate_audio offline_env
        (fresh_world\<lparr>disk := {''a.ogg''},
           cache := [(''goal_en-US'', \<lparr>file_path = ''a.ogg'', timestamp = 0\<rparr>)]\<rparr>)
        (ascii ''goal'') (ascii ''en-US'')) = Inr (Some ''a.ogg'')
   \<and> cache (snd (generate_audio online_env fresh_world (ascii ''goal'') (ascii ''en-US'')))
       = [(''goal_en-US'', \<lparr>file_path = ''tmp_en-US.ogg'', timestamp = 1\<rparr>)]"
  by (simp add: run_defs)

text \<open>
  C4, amended: the engine consults its own cache. Once the client and the text have
  passed their checks, a cache entry for the fingerprint that is younger than the TTL
  and whose file exists is returned as it is, with no remote request and nothing changed
  but the clock reading; whenever the engine returns an artifact, the text and language
  have a fingerprint and the cache holds that artifact under it afterwards; and the
  orchestrator makes no lookup of its own: without an initialised client a pair delivery
  is absent in both slots whatever the cache holds.
\<close>

theorem generate_audio_consults_cache:
  "(client_ok w \<and> \<not> blank text
      \<and> generate_key (md5_hexdigest ev) text language = Inr key
      \<and> map_of (cache w) key = Some e
      \<and> now_at ev (ticks w) - timestamp e < hours 1
      \<and> file_path e \<in> disk w \<and> file_path e \<noteq> [] \<longrightarrow>
        generate_audio ev w text language
          = (Inr (Some (file_path e)), w\<lparr>ticks := Suc (ticks w)\<rparr>))
   \<and> (fst (generate_audio ev w text language) = Inr (Some p) \<longrightarrow>
        (\<exists>k t. generate_key (md5_hexdigest ev) text language = Inr k
             \<and> map_of (cache (snd (generate_audio ev w text language))) k
                 = Some \<lparr>file_path = p, timestamp = t\<rparr>))
   \<and> (\<not> client_ok w \<longrightarrow>
        generate_lesson_audio ev w uid a b =
          ((None, None),
           w\<lparr>last_audio_files := AList.update uid
                \<lparr>pt = None, en = None, pt_text = a, en_text = Some b\<rparr> (last_audio_files w)\<rparr>))"
  using generate_audio_hit [of w "text" ev language key e]
    returned_artifact_is_cached [of ev w "text" language p]
    lesson_without_client [of w ev uid a b]
  by blast

theorem generate_audio_consults_cache_witness:
  "generate_audio offline_env
      (fresh_world\<lparr>disk := {''a.ogg''},
         cache := [(''goal_en-US'', \<lparr>file_path = ''a.ogg'', timestamp = 0\<rparr>)]\<rparr>)
      (ascii ''goal'') (ascii ''en-US'')
     = (Inr (Some ''a.ogg''),
        fresh_world\<lparr>disk := {''a.ogg''},
          cache := [(''goal_en-US'', \<lparr>file_path = ''a.ogg'', timestamp = 0\<rparr>)], ticks := 1\<rparr>)
   \<and> (\<exists>t. map_of (cache (snd (generate_audio online_env fresh_world (ascii ''goal'') (ascii ''en-US''))))
              ''goal_en-US''
            = Some \<lparr>file_path = ''tmp_en-US.ogg'', timestamp = t\<rparr>)
   \<and> fst (generate_lesson_audio online_env (fresh_world\<lparr>client_ok := False\<rparr>) 7
            (ascii ''gol'') (ascii ''goal''))
       = (None, None)"
proof -
  let ?w = "fresh_world\<lparr>disk := {''a.ogg''},
         cache := [(''goal_en-US'', \<lparr>file_path = ''a.ogg'', timestamp = 0\<rparr>)]\<rparr>"
  let ?e = "\<lparr>file_path = ''a.ogg'', timestamp = 0\<rparr>"
  have hit: "client_ok ?w \<and> \<not> blank (ascii ''goal'')
      \<and> generate_key (md5_hexdigest offline_env) (ascii ''goal'') (ascii ''en-US'') = Inr ''goal_en-US''
      \<and> map_of (cache ?w) ''goal_en-US'' = Some ?e
      \<and> now_at offline_env (ticks ?w) - timestamp ?e < hours 1
      \<and> file_path ?e \<in> disk ?w \<and> file_path ?e \<noteq> []"
    by (simp add: fresh_world_def offline_env_def hours_def)
  have ret: "fst (generate_audio online_env fresh_world (ascii ''goal'') (ascii ''en-US''))
      = Inr (Some ''tmp_en-US.ogg'')"
    by (simp add: run_defs)
  have off: "\<not> client_ok (fresh_world\<lparr>client_ok := False\<rparr>)"
    by simp
  from generate_audio_consults_cache [of ?w "ascii ''goal''" offline_env "ascii ''en-US''"
      "''goal_en-US''" ?e] hit
  have 1: "generate_audio offline_env ?w (ascii ''goal'') (ascii ''en-US'')
          = (Inr (Some (file_path ?e)), ?w\<lparr>ticks := Suc (ticks ?w)\<rparr>)"
    by blast
  from generate_audio_consults_cache [of fresh_world "ascii ''goal''" online_env "ascii ''en-US''"
      _ _ "''tmp_en-US.ogg''"] ret
  have "\<exists>k t. generate_key (md5_hexdigest online_env) (ascii ''goal'') (ascii ''en-US'') = Inr k
             \<and> map_of (cache (snd (generate_audio online_env fresh_world (ascii ''goal'') (ascii ''en-US'')))) k
                 = Some \<lparr>file_path = ''tmp_en-US.ogg'', timestamp = t\<rparr>"
    by blast
  then have 2: "\<exists>t. map_of (cache (snd (generate_audio online_env fresh_world
                  (ascii ''goal'') (ascii ''en-US'')))) ''goal_en-US''
                 = Some \<lparr>file_path = ''tmp_en-US.ogg'', timestamp = t\<rparr>"
    by (auto simp: online_env_def)
  from generate_audio_consults_cache [of "fresh_world\<lparr>client_ok := False\<rparr>" _ online_env _ _ _ _ 7
      "ascii ''gol''" "ascii ''goal''"] off
  have 3: "fst (generate_lesson_audio online_env (fresh_world\<lparr>client_ok := False\<rparr>) 7
              (ascii ''gol'') (ascii ''goal''))
       = (None, None)"
    by simp
  from 1 2 3 show ?thesis
    by (simp add: fresh_world_def)
qed

lemma generate_audio_miss:
  assumes "client_ok w" and "\<not> blank text"
    and "fst (engine_cache_get ev w text language) = Inr cached"
    and "\<not> truthy cached"
  shows "generate_audio ev w text language =
     (case try_begin ev (snd (engine_cache_get ev w text language)) text language of
        (Done r, w1) \<Rightarrow> (r, w1)
      | (Pending response, w1) \<Rightarrow> finish_audio ev w1 text language response)"
proof -
  from assms(3) obtain w0 where "engine_cache_get ev w text language = (Inr cached, w0)"
    by (cases "engine_cache_get ev w text language") simp
  with assms(1,2,4) show ?thesis
    by (simp add: generate_audio_def begin_audio_def)
qed

lemma miss_unsupported:
  assumes "client_ok w" and "\<not> blank text"
    and "fst (engine_cache_get ev w text language) = Inr cached" and "\<not> truthy cached"
    and "get_voice_config language = Inl e"
  shows "fst (generate_audio ev w text language) = Inr None
     \<and> requests (snd (generate_audio ev w text language)) = requests w"
  using assms(5) by (simp add: generate_audio_miss [OF assms(1-4)] try_begin_def)

lemma miss_remote_failure:
  assumes "client_ok w" and "\<not> blank text"
    and "fst (engine_cache_get ev w text language) = Inr cached" and "\<not> truthy cached"
    and "get_voice_config language = Inr voice"
    and "synthesize_speech ev (length (requests w)) (clean_text_for_tts ev text) voice = Inl e"
  shows "fst (generate_audio ev w text language) = Inr None"
  using assms(5,6)
  by (simp add: generate_audio_miss [OF assms(1-4)] try_begin_def finish_audio_def Let_def)

lemma miss_write_failure:
  assumes "client_ok w" and "\<not> blank text"
    and "fst (engine_cache_get ev w text language) = Inr cached" and "\<not> truthy cached"
    and "get_voice_config language = Inr voice"
    and "synthesize_speech ev (length (requests w)) (clean_text_for_tts ev text) voice = Inr audio"
    and "write_temp_file ev (ticks (snd (engine_cache_get ev w text language))) audio language
           = Write_failed left"
  shows "fst (generate_audio ev w text language) = Inr None"
  using assms(5,6,7)
  by (simp add: generate_audio_miss [OF assms(1-4)] try_begin_def finish_audio_def Let_def
        save_audio_file_def read_clock_def split_beta)

lemma generate_audio_blank_unicode:
  "generate_audio online_env fresh_world [0xA0, 0x3000] (ascii ''pt-BR'') = (Inr None, fresh_world)"
  by (simp add: generate_audio_def begin_audio_def blank_def is_space_def fresh_world_def)

text \<open>
  Two further runs. The fingerprint of the text \<open>x_y\<close> in \<open>pt-BR\<close> is that of the text
  \<open>x\<close> in \<open>y_pt-BR\<close>, so after the first has been synthesised the second, whose
  language tag is not supported, returns the first one's artifact. An answer of the
  remote service that holds no audio bytes is written, cached and returned like any
  other.
\<close>

lemma generate_audio_key_collision:
  "fst (generate_audio online_env
          (snd (generate_audio online_env fresh_world (ascii ''x_y'') (ascii ''pt-BR'')))
          (ascii ''x'') (ascii ''y_pt-BR'')) = Inr (Some ''tmp_pt-BR.ogg'')
   \<and> get_voice_config (ascii ''y_pt-BR'') = Inl ValueError"
  by (simp add: run_defs)

lemma generate_audio_empty_answer:
  "fst (generate_audio silent_env fresh_world (ascii ''goal'') (ascii ''en-US''))
     = Inr (Some ''tmp_en-US.ogg'')"
  by (simp add: run_defs)

text \<open>
  C5: the synthesis should never raise to its caller. With an initialised client, a
  text that holds a lone surrogate is not blank, its key string cannot be encoded, and
  the cache lookup, which comes before the \<open>try\<close>, raises \<open>UnicodeEncodeError\<close> out of
  the synthesis.
\<close>

theorem generate_audio_raises_on_lone_surrogate:
  "generate_audio online_env fresh_world [0xD83D] (ascii ''pt-BR'')
     = (Inl UnicodeEncodeError, fresh_world)"
  by (simp add: generate_audio_def begin_audio_def engine_cache_get_def generate_key_def
        encodable_def surrogate_def blank_def is_space_def fresh_world_def)

section \<open>Properties of the orchestrator\<close>

lemmas run_defs2 = run_defs generate_lesson_audio_def generate_professor_audio_def
  repeat_last_audio_def needs_regeneration_def exists_on_def still_there_def text_of_def
  nonempty_def pt_first_def

lemma deleted_needs_regeneration:
  assumes "(pt la = Some p \<or> en la = Some p) \<and> p \<noteq> [] \<and> p \<notin> disk w"
  shows "needs_regeneration w la"
  using assms by (auto simp: needs_regeneration_def exists_on_def truthy_def)

lemma repeat_without_record:
  "map_of (last_audio_files w) uid = None \<Longrightarrow> repeat_last_audio ev w uid = (Inr (None, None), w)"
  by (simp add: repeat_last_audio_def)

lemma repeat_regenerates_pair:
  assumes "map_of (last_audio_files w) uid = Some la" and "needs_regeneration w la"
    and "pt_text la \<noteq> []" and "en_text la = Some t" and "t \<noteq> []"
  shows "repeat_last_audio ev w uid =
     (Inr (fst (generate_lesson_audio ev w uid (pt_text la) t)),
      snd (generate_lesson_audio ev w uid (pt_text la) t))"
  using assms by (simp add: repeat_last_audio_def nonempty_def text_of_def split_beta)

lemma repeat_regenerates_single:
  assumes "map_of (last_audio_files w) uid = Some la" and "needs_regeneration w la"
    and "pt_text la \<noteq> []" and "\<not> nonempty (en_text la)"
  shows "repeat_last_audio ev w uid =
     (map_sum id (\<lambda>r. (r, None)) (fst (generate_professor_audio ev w uid (pt_text la))),
      snd (generate_professor_audio ev w uid (pt_text la)))"
  using assms by (simp add: repeat_last_audio_def split_beta split: sum.splits prod.splits)

lemma repeat_empty_native_text:
  assumes "map_of (last_audio_files w) uid = Some la" and "pt_text la = []"
  shows "repeat_last_audio ev w uid = (Inr (still_there w la), w)"
  using assms by (simp add: repeat_last_audio_def)

lemma client_begin_audio [simp]:
  "client_ok (snd (begin_audio ev w text language)) = client_ok w"
  by (simp add: begin_audio_def try_begin_def Let_def split_beta split: sum.splits prod.splits)

lemma encodable_append [simp]: "encodable (a @ b) \<longleftrightarrow> encodable a \<and> encodable b"
  by (auto simp: encodable_def list_ex_iff)

lemma begin_audio_progress:
  assumes "client_ok w" and "\<not> blank text" and "encodable text"
    and "get_voice_config language = Inr voice"
    and "\<forall>n c v. \<exists>audio. synthesize_speech ev n c v = Inr audio"
  shows "(\<exists>f. fst (begin_audio ev w text language) = Done (Inr (Some f)) \<and> f \<noteq> [])
       \<or> (\<exists>audio. fst (begin_audio ev w text language) = Pending (Inr audio))"
proof -
  from assms(4) have "language = ascii ''pt-BR'' \<or> language = ascii ''en-US''"
    by (auto simp: get_voice_config_def split: if_splits)
  with assms(3) have "encodable (text @ ascii ''_'' @ language)"
    by auto
  then obtain cached where "fst (engine_cache_get ev w text language) = Inr cached"
    by (cases "fst (engine_cache_get ev w text language)")
      (simp_all add: engine_cache_get_raises generate_key_def)
  then obtain w0 where look: "engine_cache_get ev w text language = (Inr cached, w0)"
    by (cases "engine_cache_get ev w text language") simp
  show ?thesis
  proof (cases "truthy cached")
    case True
    then obtain f where "cached = Some f" and "f \<noteq> []"
      by (auto simp: truthy_def split: option.splits)
    with assms(1,2) True look show ?thesis
      by (simp add: begin_audio_def)
  next
    case False
    from assms(5) obtain audio where
      "synthesize_speech ev (length (requests w0)) (clean_text_for_tts ev text) voice = Inr audio"
      by blast
    with assms(1,2,4) False look show ?thesis
      by (simp add: begin_audio_def try_begin_def Let_def)
  qed
qed

lemma finish_audio_present:
  assumes "\<forall>n audio l. \<exists>p. write_temp_file ev n audio l = Written p \<and> p \<noteq> []"
    and "encodable text" and "get_voice_config language = Inr voice"
  shows "\<exists>p. fst (finish_audio ev w text language (Inr audio)) = Inr (Some p) \<and> p \<noteq> []"
proof -
  from assms(1) obtain p where wr: "write_temp_file ev (ticks w) audio language = Written p"
    and p: "p \<noteq> []"
    by blast
  from assms(3) have "language = ascii ''pt-BR'' \<or> language = ascii ''en-US''"
    by (auto simp: get_voice_config_def split: if_splits)
  with assms(2) have "encodable (text @ ascii ''_'' @ language)"
    by auto
  then have "\<exists>key. generate_key (md5_hexdigest ev) text language = Inr key"
    by (simp add: generate_key_def)
  then have "\<And>w1. \<exists>w2. engine_cache_set ev w1 text language p = Inr w2"
    by (auto simp: engine_cache_set_def cache_set_def Let_def split_beta)
  then obtain w2 where
    "engine_cache_set ev (snd (save_audio_file ev w audio language)) text language p = Inr w2"
    by blast
  with wr p show ?thesis
    by (simp add: finish_audio_def save_audio_file_def read_clock_def Let_def)
qed

lemma generate_lesson_audio_present:
  assumes "client_ok w" and "\<not> blank a" and "\<not> blank b" and "encodable a" and "encodable b"
    and remote: "\<forall>n c v. \<exists>audio. synthesize_speech ev n c v = Inr audio"
    and writes: "\<forall>n audio l. \<exists>p. write_temp_file ev n audio l = Written p \<and> p \<noteq> []"
  shows "\<exists>p q. fst (generate_lesson_audio ev w uid a b) = (Some p, Some q) \<and> p \<noteq> [] \<and> q \<noteq> []"
proof -
  let ?pt = "ascii ''pt-BR''" and ?en = "ascii ''en-US''"
  let ?w1 = "snd (begin_audio ev w a ?pt)"
  let ?w2 = "snd (begin_audio ev ?w1 b ?en)"
  have pt_cfg: "get_voice_config ?pt = Inr TTS_PT_CONFIG"
    and en_cfg: "get_voice_config ?en = Inr TTS_EN_CONFIG"
    by (simp_all add: get_voice_config_def)
  have c1: "client_ok ?w1" using assms(1) by simp
  note s1 = begin_audio_progress [OF assms(1,2,4) pt_cfg remote]
  note s2 = begin_audio_progress [OF c1 assms(3,5) en_cfg remote]
  note fp = finish_audio_present [OF writes assms(4) pt_cfg]
  note fe = finish_audio_present [OF writes assms(5) en_cfg]
  from s1 show ?thesis
  proof (elim disjE exE conjE)
    fix f1 assume d1: "fst (begin_audio ev w a ?pt) = Done (Inr (Some f1))" and n1: "f1 \<noteq> []"
    from s2 show ?thesis
    proof (elim disjE exE conjE)
      fix f2 assume "fst (begin_audio ev ?w1 b ?en) = Done (Inr (Some f2))" and "f2 \<noteq> []"
      with d1 n1 show ?thesis
        by (simp add: generate_lesson_audio_def split_beta)
    next
      fix y assume p2: "fst (begin_audio ev ?w1 b ?en) = Pending (Inr y)"
      from fe [of ?w2 y] obtain q where
        "fst (finish_audio ev ?w2 b ?en (Inr y)) = Inr (Some q)" and "q \<noteq> []"
        by blast
      with d1 n1 p2 show ?thesis
        by (simp add: generate_lesson_audio_def split_beta)
    qed
  next
    fix x assume p1: "fst (begin_audio ev w a ?pt) = Pending (Inr x)"
    from s2 show ?thesis
    proof (elim disjE exE conjE)
      fix f2 assume d2: "fst (begin_audio ev ?w1 b ?en) = Done (Inr (Some f2))" and n2: "f2 \<noteq> []"
      from fp [of ?w2 x] obtain p where
        "fst (finish_audio ev ?w2 a ?pt (Inr x)) = Inr (Some p)" and "p \<noteq> []"
        by blast
      with p1 d2 n2 show ?thesis
        by (simp add: generate_lesson_audio_def split_beta)
    next
      fix y assume p2: "fst (begin_audio ev ?w1 b ?en) = Pending (Inr y)"
      show ?thesis
      proof (cases "en_finishes_first ev (length (requests ?w2))")
        case True
        let ?w3 = "snd (finish_audio ev ?w2 b ?en (Inr y))"
        from fe [of ?w2 y] obtain q where
          q: "fst (finish_audio ev ?w2 b ?en (Inr y)) = Inr (Some q)" "q \<noteq> []"
          by blast
        from fp [of ?w3 x] obtain p where
          "fst (finish_audio ev ?w3 a ?pt (Inr x)) = Inr (Some p)" "p \<noteq> []"
          by blast
        with q p1 p2 True show ?thesis
          by (simp add: generate_lesson_audio_def split_beta)
      next
        case False
        let ?w3 = "snd (finish_audio ev ?w2 a ?pt (Inr x))"
        from fp [of ?w2 x] obtain p where
          p: "fst (finish_audio ev ?w2 a ?pt (Inr x)) = Inr (Some p)" "p \<noteq> []"
          by blast
        from fe [of ?w3 y] obtain q where
          "fst (finish_audio ev ?w3 b ?en (Inr y)) = Inr (Some q)" "q \<noteq> []"
          by blast
        with p p1 p2 False show ?thesis
          by (simp add: generate_lesson_audio_def split_beta)
      qed
    qed
  qed
qed

lemma repeat_present:
  assumes "map_of (last_audio_files w) uid = Some la" and "needs_regeneration w la"
    and "en_text la = Some t"
    and "client_ok w" and "\<not> blank (pt_text la)" and "\<not> blank t"
    and "encodable (pt_text la)" and "encodable t"
    and "\<forall>n c v. \<exists>audio. synthesize_speech ev n c v = Inr audio"
    and "\<forall>n audio l. \<exists>p. write_temp_file ev n audio l = Written p \<and> p \<noteq> []"
  shows "\<exists>a b. fst (repeat_last_audio ev w uid) = Inr (Some a, Some b) \<and> a \<noteq> [] \<and> b \<noteq> []"
proof -
  from generate_lesson_audio_present [OF assms(4,5,6,7,8,9,10), of uid]
  obtain a b where "fst (generate_lesson_audio ev w uid (pt_text la) t) = (Some a, Some b)"
    and "a \<noteq> []" and "b \<noteq> []"
    by blast
  with repeat_regenerates_pair [OF assms(1,2) not_blank_nonempty [OF assms(5)] assms(3)
      not_blank_nonempty [OF assms(6)], of ev]
  show ?thesis by simp
qed

text \<open>
  C6: a replay should regenerate recorded artifacts that were deleted, from the recorded
  texts. The pair delivery of an empty native text with the foreign text \<open>goal\<close>
  records the foreign artifact and its text; once that file is deleted, the replay
  returns both slots absent, issues no request and changes nothing.
\<close>

theorem repeat_last_audio_no_regeneration:
  "map_of (last_audio_files (snd (generate_lesson_audio online_env fresh_world 7 [] (ascii ''goal'')))) 7
     = Some \<lparr>pt = None, en = Some ''tmp_en-US.ogg'', pt_text = [], en_text = Some (ascii ''goal'')\<rparr>
   \<and> repeat_last_audio online_env
        ((snd (generate_lesson_audio online_env fresh_world 7 [] (ascii ''goal'')))\<lparr>disk := {}\<rparr>) 7
     = (Inr (None, None),
        (snd (generate_lesson_audio online_env fresh_world 7 [] (ascii ''goal'')))\<lparr>disk := {}\<rparr>)"
  by (simp add: run_defs2)

end
